theory Spec2Isabelle
  imports Main "HOL-Library.Sublist"
begin

section \<open>JavaScript values\<close>

text \<open>
  The handlers of the plugin receive values of type \<^verbatim>\<open>any\<close> from the language model and
  from the JSON-RPC node. They are modelled by the datatype below. A JavaScript number is
  modelled by an integer (\<open>JNum\<close>), rendered in plain digits as JavaScript renders an
  integer below \<open>10\<^sup>2\<^sup>1\<close>; \<open>NaN\<close>, infinities and fractions are not represented. A
  \<^verbatim>\<open>bigint\<close> is \<open>JBig\<close>. Strings are the UTF-8 bytes of the text, as the source files hold
  them; the handlers measure and cut only strings of ASCII characters, where bytes and
  UTF-16 code units agree.
\<close>

datatype jsval =
    JUndefined
  | JNull
  | JBool bool
  | JNum int
  | JBig int
  | JStr string
  | JArr "jsval list"
  | JObj "(string \<times> jsval) list"

text \<open>Truthiness, as \<^verbatim>\<open>!x\<close>, \<^verbatim>\<open>x || y\<close> and \<^verbatim>\<open>if (x)\<close> test it.\<close>

fun truthy :: "jsval \<Rightarrow> bool" where
  "truthy JUndefined = False"
| "truthy JNull = False"
| "truthy (JBool b) = b"
| "truthy (JNum n) = (n \<noteq> 0)"
| "truthy (JBig n) = (n \<noteq> 0)"
| "truthy (JStr s) = (s \<noteq> [])"
| "truthy (JArr xs) = True"
| "truthy (JObj kvs) = True"

text \<open>\<^verbatim>\<open>a || b\<close> on values.\<close>

definition js_or :: "jsval \<Rightarrow> jsval \<Rightarrow> jsval" where
  "js_or a b = (if truthy a then a else b)"

text \<open>
  Property access \<^verbatim>\<open>x?.k\<close>: none of the keys the handlers read is an own property of a
  primitive or of an array, so every value but an object yields \<^verbatim>\<open>undefined\<close>. The handlers
  use the plain \<^verbatim>\<open>x.k\<close> only after a truthiness test of \<^verbatim>\<open>x\<close>, where both agree.
\<close>

fun field :: "jsval \<Rightarrow> string \<Rightarrow> jsval" where
  "field (JObj kvs) k = (case map_of kvs k of None \<Rightarrow> JUndefined | Some v \<Rightarrow> v)"
| "field v k = JUndefined"

text \<open>\<^verbatim>\<open>typeof x === "number"\<close>\<close>

fun is_number :: "jsval \<Rightarrow> bool" where
  "is_number (JNum n) = True"
| "is_number v = False"

text \<open>The integer of a value that \<open>is_number\<close> holds of.\<close>

fun the_number :: "jsval \<Rightarrow> int" where
  "the_number (JNum n) = n"
| "the_number v = 0"

subsection \<open>Rendering numbers and values as text\<close>

definition digit_char :: "nat \<Rightarrow> char" where
  "digit_char d = (if d < 10 then char_of (48 + d) else char_of (87 + d))"

function digits :: "nat \<Rightarrow> nat \<Rightarrow> string" where
  "digits b n =
     (if b < 2 \<or> n < b then [digit_char n]
      else digits b (n div b) @ [digit_char (n mod b)])"
  by pat_completeness auto
termination
  by (relation "measure (\<lambda>(b, n). n)") auto

declare digits.simps [simp del]

text \<open>\<^verbatim>\<open>n.toString(radix)\<close> on an integer: a minus sign, then the digits.\<close>

definition show_int :: "nat \<Rightarrow> int \<Rightarrow> string" where
  "show_int b n = (if n < 0 then ''-'' @ digits b (nat (- n)) else digits b (nat n))"

text \<open>\<^verbatim>\<open>xs.join(sep)\<close> on strings.\<close>

fun join :: "string \<Rightarrow> string list \<Rightarrow> string" where
  "join sep [] = []"
| "join sep [x] = x"
| "join sep (x # y # ys) = x @ sep @ join sep (y # ys)"

text \<open>
  \<^verbatim>\<open>String(x)\<close>, which is also what a template literal and \<^verbatim>\<open>new Error(x)\<close> apply.
  Inside an array \<^verbatim>\<open>null\<close> and \<^verbatim>\<open>undefined\<close> render as the empty string.
\<close>

fun js_to_string :: "jsval \<Rightarrow> string"
  and js_elem_string :: "jsval \<Rightarrow> string"
  and js_elems :: "jsval list \<Rightarrow> string list" where
  "js_to_string JUndefined = ''undefined''"
| "js_to_string JNull = ''null''"
| "js_to_string (JBool b) = (if b then ''true'' else ''false'')"
| "js_to_string (JNum n) = show_int 10 n"
| "js_to_string (JBig n) = show_int 10 n"
| "js_to_string (JStr s) = s"
| "js_to_string (JArr xs) = join '','' (js_elems xs)"
| "js_to_string (JObj kvs) = ''[object Object]''"
| "js_elem_string JUndefined = []"
| "js_elem_string JNull = []"
| "js_elem_string (JBool b) = js_to_string (JBool b)"
| "js_elem_string (JNum n) = js_to_string (JNum n)"
| "js_elem_string (JBig n) = js_to_string (JBig n)"
| "js_elem_string (JStr s) = js_to_string (JStr s)"
| "js_elem_string (JArr xs) = js_to_string (JArr xs)"
| "js_elem_string (JObj kvs) = js_to_string (JObj kvs)"
| "js_elems [] = []"
| "js_elems (v # vs) = js_elem_string v # js_elems vs"

section \<open>Exceptions, settings and validation\<close>

text \<open>
  A thrown value is either an \<^verbatim>\<open>Error\<close> instance with its message, or some other value,
  kept by its \<^verbatim>\<open>String(...)\<close> rendering.
\<close>

datatype js_exn = Err string | Thrown string

text \<open>\<^verbatim>\<open>error instanceof Error ? error.message : String(error)\<close>\<close>

fun exn_text :: "js_exn \<Rightarrow> string" where
  "exn_text (Err m) = m"
| "exn_text (Thrown s) = s"

text \<open>\<^verbatim>\<open>error instanceof Error ? error : new Error(String(error))\<close>\<close>

fun as_error :: "js_exn \<Rightarrow> js_exn" where
  "as_error (Err m) = Err m"
| "as_error (Thrown s) = Err s"

text \<open>
  \<^verbatim>\<open>runtime.getSetting\<close>: a setting is a string or absent (the configuration schema of
  \<^verbatim>\<open>index.ts\<close> declares the three settings as optional strings). An absent setting and the
  empty string are both falsy.
\<close>

type_synonym settings = "string \<Rightarrow> string option"

fun present :: "string option \<Rightarrow> bool" where
  "present None = False"
| "present (Some s) = (s \<noteq> [])"

text \<open>\<^verbatim>\<open>s || d\<close> for a setting and a default string.\<close>

fun or_default :: "string option \<Rightarrow> string \<Rightarrow> string" where
  "or_default None d = d"
| "or_default (Some s) d = (if s \<noteq> [] then s else d)"

text \<open>A setting inside a template literal.\<close>

fun setting_text :: "string option \<Rightarrow> string" where
  "setting_text None = ''undefined''"
| "setting_text (Some s) = s"

text \<open>The message of the conversation: only its \<^verbatim>\<open>content.text\<close> is ever read.\<close>

type_synonym memory = "string option"

text \<open>
  The five \<^verbatim>\<open>validate\<close> functions have the same body; each takes the runtime (its settings),
  the message and the state, and reads the two settings only.
\<close>

definition getStorageAt_validate :: "settings \<Rightarrow> memory \<Rightarrow> jsval \<Rightarrow> bool" where
  "getStorageAt_validate getSetting message state =
     (let alchemyApiKey = getSetting ''ALCHEMY_API_KEY'';
          zkevmRpcUrl = getSetting ''ZKEVM_RPC_URL''
      in if \<not> present alchemyApiKey \<and> \<not> present zkevmRpcUrl then False else True)"

definition getTransactionReceipt_validate :: "settings \<Rightarrow> memory \<Rightarrow> jsval \<Rightarrow> bool" where
  "getTransactionReceipt_validate getSetting message state =
     (let alchemyApiKey = getSetting ''ALCHEMY_API_KEY'';
          zkevmRpcUrl = getSetting ''ZKEVM_RPC_URL''
      in if \<not> present alchemyApiKey \<and> \<not> present zkevmRpcUrl then False else True)"

definition getGasPrice_validate :: "settings \<Rightarrow> memory \<Rightarrow> jsval \<Rightarrow> bool" where
  "getGasPrice_validate getSetting message state =
     (let alchemyApiKey = getSetting ''ALCHEMY_API_KEY'';
          zkevmRpcUrl = getSetting ''ZKEVM_RPC_URL''
      in if \<not> present alchemyApiKey \<and> \<not> present zkevmRpcUrl then False else True)"

definition getBlockDetailsByNumber_validate :: "settings \<Rightarrow> memory \<Rightarrow> jsval \<Rightarrow> bool" where
  "getBlockDetailsByNumber_validate getSetting message state =
     (let alchemyApiKey = getSetting ''ALCHEMY_API_KEY'';
          zkevmRpcUrl = getSetting ''ZKEVM_RPC_URL''
      in if \<not> present alchemyApiKey \<and> \<not> present zkevmRpcUrl then False else True)"

definition getBatchInfo_validate :: "settings \<Rightarrow> memory \<Rightarrow> jsval \<Rightarrow> bool" where
  "getBatchInfo_validate getSetting message state =
     (let alchemyApiKey = getSetting ''ALCHEMY_API_KEY'';
          zkevmRpcUrl = getSetting ''ZKEVM_RPC_URL''
      in if \<not> present alchemyApiKey \<and> \<not> present zkevmRpcUrl then False else True)"

section \<open>Results, effects and the outside world\<close>

text \<open>
  A double-precision expression, left unevaluated: \<^verbatim>\<open>Number(v)\<close>, a numeric literal, a
  quotient and a product. Only \<^verbatim>\<open>toFixed\<close>, a parameter of the model, reads one.
\<close>

datatype fexp = FNumber jsval | FLit int | FDiv fexp fexp | FMul fexp fexp

text \<open>A field of a returned object: a value or a floating-point number.\<close>

datatype outv = V jsval | VFloat fexp

text \<open>The \<^verbatim>\<open>ActionResult\<close> of a handler; \<open>r_error\<close> is \<open>None\<close> where the object has no \<^verbatim>\<open>error\<close>.\<close>

record action_result =
  r_success :: bool
  r_text :: string
  r_values :: "(string \<times> outv) list"
  r_data :: "(string \<times> outv) list"
  r_error :: "js_exn option"

text \<open>
  What a handler does to the outside, in order: a call of the language model (by the action
  name or model type it is called with), a request to a node (URL, method, parameters), and
  a call of the callback (text and content).
\<close>

datatype event =
    LLMCall string
  | RpcCall string string "jsval list"
  | Callback string "(string \<times> outv) list"

fun is_rpc :: "event \<Rightarrow> bool" where
  "is_rpc (RpcCall url m ps) = True"
| "is_rpc e = False"


text \<open>A run of a handler: its effects, and the exception it rejects with or its result.\<close>

type_synonym run = "event list \<times> (js_exn + action_result)"

text \<open>The \<^verbatim>\<open>TransactionReceipt\<close> of the client library, by the fields the handler reads.\<close>

record receipt =
  rc_hash :: string
  rc_blockNumber :: int
  rc_from :: string
  rc_to :: "string option"
  rc_status :: "int option"
  rc_gasUsed :: int
  rc_gasPrice :: int
  rc_index :: int
  rc_contractAddress :: "string option"
  rc_logs :: nat

text \<open>The \<^verbatim>\<open>Response\<close> of \<^verbatim>\<open>fetch\<close>; \<open>resp_json\<close> is what \<^verbatim>\<open>response.json()\<close> gives.\<close>

record response =
  resp_ok :: bool
  resp_status :: int
  resp_statusText :: string
  resp_json :: "js_exn + jsval"

text \<open>
  The outside world of one invocation: the settings, the answers of the language model and
  of the node to each request (\<open>Inl\<close> when the call throws), the clock at its first and
  second reading, and the built-in functions the model does not compute.
  \<open>getBlock\<close> gives the block as the handler stores it (its \<^verbatim>\<open>toJSON\<close> form), or a falsy
  value when the node has no such block.
\<close>

record world =
  getSetting :: settings
  callLLMWithTimeout :: "jsval \<Rightarrow> string \<Rightarrow> js_exn + jsval"
  useModel :: "jsval \<Rightarrow> js_exn + jsval"
  getStorage :: "string \<Rightarrow> jsval \<Rightarrow> jsval \<Rightarrow> jsval \<Rightarrow> js_exn + string"
  getTransactionReceipt :: "string \<Rightarrow> string \<Rightarrow> js_exn + receipt option"
  send :: "string \<Rightarrow> string \<Rightarrow> jsval list \<Rightarrow> js_exn + jsval"
  getFeeData :: "string \<Rightarrow> js_exn + jsval"
  fetch :: "string \<Rightarrow> jsval list \<Rightarrow> js_exn + response"
  getBlock :: "string \<Rightarrow> jsval \<Rightarrow> js_exn + jsval"
  now :: "nat \<Rightarrow> int"
  BigInt :: "jsval \<Rightarrow> js_exn + int"
  parseInt16 :: "string \<Rightarrow> int option"
  toFixed :: "fexp \<Rightarrow> nat \<Rightarrow> string"
  stringify :: "jsval \<Rightarrow> string"

subsection \<open>Pieces every handler repeats\<close>

definition cross_mark :: string where
  "cross_mark = [CHR 0xE2, CHR 0x9D, CHR 0x8C]"

text \<open>
  The first characters of the failure texts of \<^verbatim>\<open>getBatchInfo\<close>, as its source file holds
  them: U+201A, U+00F9, U+00E5.
\<close>

definition batch_mark :: string where
  "batch_mark = [CHR 0xE2, CHR 0x80, CHR 0x9A, CHR 0xC3, CHR 0xB9, CHR 0xC3, CHR 0xA5]"

definition config_message :: string where
  "config_message = ''ALCHEMY_API_KEY or ZKEVM_RPC_URL is required in configuration.''"

definition default_alchemy_url :: string where
  "default_alchemy_url = ''https://polygonzkevm-mainnet.g.alchemy.com/v2''"

text \<open>\<^verbatim>\<open>if (callback) { await callback({ text, content }) }\<close>\<close>

definition notify :: "bool \<Rightarrow> string \<Rightarrow> (string \<times> outv) list \<Rightarrow> event list" where
  "notify callback t content = (if callback then [Callback t content] else [])"

text \<open>\<^verbatim>\<open>content: { success: false, error: errorMessage }\<close>\<close>

definition failure_content :: "string \<Rightarrow> (string \<times> outv) list" where
  "failure_content errorMessage =
     [(''success'', V (JBool False)), (''error'', V (JStr errorMessage))]"

text \<open>
  The object every failing \<^verbatim>\<open>return\<close> of the five handlers builds: the mark and the
  message as text, the action's own flag set to false in \<^verbatim>\<open>values\<close>, the action name and
  the message in \<^verbatim>\<open>data\<close> (followed by the fields \<open>extra\<close> where a handler adds some), and
  the error.
\<close>

definition failure :: "string \<Rightarrow> string \<Rightarrow> string \<Rightarrow> string \<Rightarrow> (string \<times> outv) list
    \<Rightarrow> js_exn \<Rightarrow> action_result" where
  "failure mark actionName flag errorMessage extra e =
     \<lparr> r_success = False,
       r_text = mark @ '' '' @ errorMessage,
       r_values = [(flag, V (JBool False)), (''error'', V (JBool True)),
                   (''errorMessage'', V (JStr errorMessage))],
       r_data = [(''actionName'', V (JStr actionName)), (''error'', V (JStr errorMessage))]
                @ extra,
       r_error = Some e \<rparr>"

section \<open>The handlers\<close>

subsection \<open>\<^verbatim>\<open>getStorageAt\<close>\<close>

definition is_hex :: "char \<Rightarrow> bool" where
  "is_hex c =
     (let n = (of_char c :: nat)
      in (48 \<le> n \<and> n \<le> 57) \<or> (65 \<le> n \<and> n \<le> 70) \<or> (97 \<le> n \<and> n \<le> 102))"

text \<open>The literal the storage value is compared with: \<^verbatim>\<open>0x\<close> and 64 zeros.\<close>

definition zero_word :: string where
  "zero_word = ''0x'' @ replicate 64 (CHR ''0'')"

text \<open>\<^verbatim>\<open>s.slice(-40)\<close>\<close>

definition slice_last40 :: "string \<Rightarrow> string" where
  "slice_last40 s = drop (length s - 40) s"

text \<open>\<^verbatim>\<open>/^0x[a-fA-F0-9]{40}$/\<close>\<close>

definition is_address :: "string \<Rightarrow> bool" where
  "is_address s = (take 2 s = ''0x'' \<and> length (drop 2 s) = 40 \<and> list_all is_hex (drop 2 s))"

text \<open>The loop \<^verbatim>\<open>for (i = 0; i < hexString.length; i += 2) hexString.substr(i, 2)\<close>.\<close>

fun pairs :: "string \<Rightarrow> string list" where
  "pairs [] = []"
| "pairs [a] = [[a]]"
| "pairs (a # b # cs) = [a, b] # pairs cs"

text \<open>
  \<^verbatim>\<open>String.fromCharCode(...bytes.filter((b) => b > 31 && b < 127))\<close>; a pair that
  \<^verbatim>\<open>parseInt\<close> turns into \<^verbatim>\<open>NaN\<close> (\<open>None\<close>) fails both comparisons.
\<close>

definition printable :: "world \<Rightarrow> string \<Rightarrow> string" where
  "printable w hexString =
     map (\<lambda>b. char_of (nat b))
       (filter (\<lambda>b. b > 31 \<and> b < 127) (List.map_filter (parseInt16 w) (pairs hexString)))"

text \<open>\<^verbatim>\<open>s.trim()\<close>, on the ASCII white space (of the printable characters, the space).\<close>

definition is_space :: "char \<Rightarrow> bool" where
  "is_space c = (c \<in> set [CHR 0x20, CHR 0x09, CHR 0x0A, CHR 0x0B, CHR 0x0C, CHR 0x0D])"

definition trim :: "string \<Rightarrow> string" where
  "trim s = rev (dropWhile is_space (rev (dropWhile is_space s)))"

text \<open>
  Lines 149 to 187: what is appended to the response text. \<^verbatim>\<open>BigInt(storageValue)\<close>
  stands outside every \<^verbatim>\<open>try\<close>, so its exception leaves the handler.
\<close>

definition interpret_value :: "world \<Rightarrow> string \<Rightarrow> js_exn + string" where
  "interpret_value w storageValue =
     (if storageValue = zero_word then
        Inr ([CHR 0xF0, CHR 0x9F, CHR 0x92, CHR 0xA1] @ '' **Interpretation:** Empty/Zero value'')
      else
        case BigInt w (JStr storageValue) of
          Inl e \<Rightarrow> Inl e
        | Inr bigIntValue \<Rightarrow>
            Inr ((if bigIntValue > 0 \<and> bigIntValue < 2 ^ 160 then
                    (let possibleAddress = ''0x'' @ slice_last40 storageValue
                     in if is_address possibleAddress then
                          [CHR 0xF0, CHR 0x9F, CHR 0x8F, CHR 0xA0] @ '' **Possible Address:** '' @ [CHR 0x60]
                          @ possibleAddress @ [CHR 0x60] @ ''\<newline>''
                        else [])
                  else [])
                 @ (if bigIntValue < 2 ^ 64 then
                      [CHR 0xF0, CHR 0x9F, CHR 0x94, CHR 0xA2] @ '' **As Decimal:** '' @ show_int 10 bigIntValue
                      @ ''\<newline>''
                    else [])
                 @ (let hexString = drop 2 storageValue;
                        t = printable w hexString
                    in if length t > 0 \<and> length (trim t) > 0 then
                         [CHR 0xF0, CHR 0x9F, CHR 0x93, CHR 0x9D] @ '' **As Text:** '' @ [CHR 0x22] @ trim t @ [CHR 0x22]
                       else [])))"

text \<open>Lines 78 to 96: the body of the \<^verbatim>\<open>try\<close>, from the answer of the language model.\<close>

definition getStorageAt_extract :: "js_exn + jsval \<Rightarrow> js_exn + jsval" where
  "getStorageAt_extract answer =
     (case answer of
        Inl e \<Rightarrow> Inl e
      | Inr storageInput \<Rightarrow>
          if truthy (field storageInput ''error'') then
            Inl (Err (js_to_string (field storageInput ''error'')))
          else if \<not> truthy (field storageInput ''address'')
                  \<or> \<not> truthy (field storageInput ''position'') then
            Inl (Err ''Invalid storage parameters received from LLM.'')
          else Inr storageInput)"

text \<open>Lines 118 to 209: after the extraction.\<close>

definition getStorageAt_query :: "world \<Rightarrow> bool \<Rightarrow> jsval \<Rightarrow> run" where
  "getStorageAt_query w callback storageInput =
     (let alchemyApiKey = getSetting w ''ALCHEMY_API_KEY'';
          zkevmRpcUrl = getSetting w ''ZKEVM_RPC_URL'';
          address = field storageInput ''address'';
          position = field storageInput ''position'';
          blockTag = js_or (field storageInput ''blockTag'') (JStr ''latest'');
          zkevmAlchemyUrl = or_default (getSetting w ''ZKEVM_ALCHEMY_URL'') default_alchemy_url;
          url = (if present alchemyApiKey
                 then zkevmAlchemyUrl @ ''/'' @ setting_text alchemyApiKey
                 else setting_text zkevmRpcUrl);
          methodUsed = (if present alchemyApiKey then ''alchemy'' else ''rpc'');
          asked = [LLMCall ''getStorageAtAction'',
                   RpcCall url ''getStorage'' [address, position, blockTag]]
      in case getStorage w url address position blockTag of
           Inl e \<Rightarrow> (asked, Inl e)
         | Inr storageValue \<Rightarrow>
             (case interpret_value w storageValue of
                Inl e \<Rightarrow> (asked, Inl e)
              | Inr appended \<Rightarrow>
                  (let responseText =
                         [CHR 0xF0, CHR 0x9F, CHR 0x97, CHR 0x84, CHR 0xEF, CHR 0xB8, CHR 0x8F] @ '' **Storage Value (Polygon zkEVM)**\<newline>\<newline>''
                         @ ''**Contract:** '' @ [CHR 0x60] @ js_to_string address @ [CHR 0x60]
                         @ ''\<newline>**Position:** '' @ js_to_string position
                         @ ''\<newline>**Block:** '' @ js_to_string blockTag
                         @ ''\<newline>**Value:** '' @ [CHR 0x60] @ storageValue @ [CHR 0x60]
                         @ ''\<newline>**Method:** '' @ methodUsed @ ''\<newline>\<newline>''
                         @ appended
                   in (asked
                       @ notify callback responseText
                           [(''success'', V (JBool True)),
                            (''storageValue'', V (JStr storageValue))],
                       Inr \<lparr> r_success = True,
                             r_text = responseText,
                             r_values = [(''storageRetrieved'', V (JBool True)),
                                         (''storageValue'', V (JStr storageValue))],
                             r_data = [(''actionName'', V (JStr ''POLYGON_ZKEVM_GET_STORAGE'')),
                                       (''address'', V address),
                                       (''position'', V position),
                                       (''blockTag'', V blockTag),
                                       (''storageValue'', V (JStr storageValue)),
                                       (''network'', V (JStr ''polygon-zkevm'')),
                                       (''method'', V (JStr methodUsed))],
                             r_error = None \<rparr>))))"

definition getStorageAt_handler :: "world \<Rightarrow> memory \<Rightarrow> jsval \<Rightarrow> bool \<Rightarrow> run" where
  "getStorageAt_handler w message state callback =
     (let alchemyApiKey = getSetting w ''ALCHEMY_API_KEY'';
          zkevmRpcUrl = getSetting w ''ZKEVM_RPC_URL''
      in if \<not> present alchemyApiKey \<and> \<not> present zkevmRpcUrl then
           (let errorMessage = config_message
            in (notify callback errorMessage (failure_content errorMessage),
                Inr (failure cross_mark ''POLYGON_ZKEVM_GET_STORAGE'' ''storageRetrieved''
                       errorMessage [] (Err errorMessage))))
         else
           case getStorageAt_extract (callLLMWithTimeout w state ''getStorageAtAction'') of
             Inl e \<Rightarrow>
               (let errorMessage =
                      ''[getStorageAtAction] Failed to extract storage parameters from input: ''
                      @ exn_text e
                in (LLMCall ''getStorageAtAction''
                    # notify callback errorMessage (failure_content errorMessage),
                    Inr (failure cross_mark ''POLYGON_ZKEVM_GET_STORAGE'' ''storageRetrieved''
                           errorMessage [] (as_error e))))
           | Inr storageInput \<Rightarrow> getStorageAt_query w callback storageInput)"

subsection \<open>\<^verbatim>\<open>getTransactionReceipt\<close>\<close>

text \<open>
  \<^verbatim>\<open>text.match(/0x[a-fA-F0-9]{64}/)\<close>: the leftmost place where \<^verbatim>\<open>0x\<close> and 64 hexadecimal
  digits stand, and the 66 characters there.
\<close>

definition hash_here :: "string \<Rightarrow> bool" where
  "hash_here s =
     (take 2 s = ''0x'' \<and> length (take 64 (drop 2 s)) = 64
      \<and> list_all is_hex (take 64 (drop 2 s)))"

fun match_hash :: "string \<Rightarrow> string option" where
  "match_hash [] = None"
| "match_hash (c # cs) =
     (if hash_here (c # cs) then Some (take 66 (c # cs)) else match_hash cs)"

text \<open>
  \<^verbatim>\<open>await callback({ text, content })\<close> with no test of \<^verbatim>\<open>callback\<close>: calling
  \<^verbatim>\<open>undefined\<close> throws a \<^verbatim>\<open>TypeError\<close>.
\<close>

definition not_a_function :: js_exn where
  "not_a_function = Err ''callback is not a function''"

definition no_text :: js_exn where
  "no_text = Err (''Cannot read properties of undefined (reading '' @ [CHR 0x27] @ ''match''
                  @ [CHR 0x27] @ '')'')"

definition default_rpc_url :: string where
  "default_rpc_url = ''https://zkevm-rpc.com''"

text \<open>Lines 322 to 347: the text of a receipt.\<close>

definition receipt_text :: "world \<Rightarrow> string \<Rightarrow> receipt \<Rightarrow> string" where
  "receipt_text w txHash rc =
     (let gasUsedPercent = ''N/A'';
          effectiveGasPriceGwei =
            (if rc_gasPrice rc \<noteq> 0
             then toFixed w (FDiv (FNumber (JBig (rc_gasPrice rc))) (FLit 1000000000)) 2
             else ''N/A'');
          status = (if rc_status rc = Some 1 then [CHR 0xE2, CHR 0x9C, CHR 0x85] @ '' Success''
                    else [CHR 0xE2, CHR 0x9D, CHR 0x8C] @ '' Failed'')
      in ''Transaction Receipt for '' @ txHash @ '':\<newline>''
         @ [CHR 0xF0, CHR 0x9F, CHR 0x93, CHR 0x8B] @ '' Hash: '' @ rc_hash rc @ ''\<newline>''
         @ [CHR 0xF0, CHR 0x9F, CHR 0x94, CHR 0x97] @ '' Block: '' @ show_int 10 (rc_blockNumber rc) @ ''\<newline>''
         @ [CHR 0xF0, CHR 0x9F, CHR 0x93, CHR 0x8D] @ '' From: '' @ rc_from rc @ ''\<newline>''
         @ [CHR 0xF0, CHR 0x9F, CHR 0x93, CHR 0x8D] @ '' To: '' @ or_default (rc_to rc) ''Contract Creation'' @ ''\<newline>''
         @ [CHR 0xF0, CHR 0x9F, CHR 0x93, CHR 0x8A] @ '' Status: '' @ status @ ''\<newline>''
         @ [CHR 0xE2, CHR 0x9B, CHR 0xBD] @ '' Gas Used: '' @ show_int 10 (rc_gasUsed rc)
         @ '' ('' @ gasUsedPercent @ ''% of limit)\<newline>''
         @ [CHR 0xF0, CHR 0x9F, CHR 0x92, CHR 0xB8] @ '' Effective Gas Price: '' @ effectiveGasPriceGwei @ '' Gwei\<newline>''
         @ [CHR 0xF0, CHR 0x9F, CHR 0x94, CHR 0xA2] @ '' Transaction Index: '' @ show_int 10 (rc_index rc)
         @ (if present (rc_contractAddress rc)
            then ''\<newline>'' @ [CHR 0xF0, CHR 0x9F, CHR 0x8F, CHR 0x97, CHR 0xEF, CHR 0xB8, CHR 0x8F] @ '' Contract Created: ''
                 @ setting_text (rc_contractAddress rc)
            else [])
         @ (if rc_logs rc > 0
            then ''\<newline>'' @ [CHR 0xF0, CHR 0x9F, CHR 0x93, CHR 0x9D] @ '' Logs: '' @ show_int 10 (int (rc_logs rc))
                 @ '' events emitted''
            else []))"

text \<open>Lines 291 to 305: the node the receipt is asked from.\<close>

definition receipt_url :: "world \<Rightarrow> string" where
  "receipt_url w =
     (let alchemyApiKey = getSetting w ''ALCHEMY_API_KEY''
      in if present alchemyApiKey then
           or_default (getSetting w ''ZKEVM_ALCHEMY_URL'') default_alchemy_url
           @ ''/'' @ setting_text alchemyApiKey
         else
           or_default (getSetting w ''ZKEVM_RPC_URL'')
             (or_default (getSetting w ''ZKEVM_RPC_URL'') default_rpc_url))"

text \<open>Lines 271 to 355: the body of the \<^verbatim>\<open>try\<close>.\<close>

definition getTransactionReceipt_try :: "world \<Rightarrow> memory \<Rightarrow> bool \<Rightarrow> run" where
  "getTransactionReceipt_try w message callback =
     (case message of
        None \<Rightarrow> ([], Inl no_text)
      | Some t \<Rightarrow>
          (case match_hash t of
             None \<Rightarrow>
               (let errorText = ''Please provide a valid transaction hash (0x... 64 characters) to get the transaction receipt.''
                in if \<not> callback then ([], Inl not_a_function)
                   else ([Callback errorText (failure_content errorText)],
                         Inr (failure cross_mark ''POLYGON_ZKEVM_GET_TRANSACTION_RECEIPT''
                                ''receiptRetrieved'' errorText [] (Err errorText))))
           | Some txHash \<Rightarrow>
               (let url = receipt_url w;
                    asked = [RpcCall url ''getTransactionReceipt'' [JStr txHash]]
                in case getTransactionReceipt w url txHash of
                     Inl e \<Rightarrow> (asked, Inl e)
                   | Inr None \<Rightarrow>
                       (let errText = ''Transaction receipt not found: '' @ txHash
                              @ ''. The transaction may be pending or does not exist.''
                        in if \<not> callback then (asked, Inl not_a_function)
                           else (asked @ [Callback errText (failure_content errText)],
                                 Inr (failure cross_mark
                                        ''POLYGON_ZKEVM_GET_TRANSACTION_RECEIPT''
                                        ''receiptRetrieved'' errText [] (Err errText))))
                   | Inr (Some rc) \<Rightarrow>
                       (let responseText = receipt_text w txHash rc
                        in if \<not> callback then (asked, Inl not_a_function)
                           else (asked @ [Callback responseText
                                            [(''success'', V (JBool True)),
                                             (''hash'', V (JStr (rc_hash rc)))]],
                                 Inr \<lparr> r_success = True,
                                       r_text = responseText,
                                       r_values = [(''receiptRetrieved'', V (JBool True)),
                                                   (''hash'', V (JStr (rc_hash rc)))],
                                       r_data = [(''actionName'',
                                                  V (JStr ''POLYGON_ZKEVM_GET_TRANSACTION_RECEIPT'')),
                                                 (''hash'', V (JStr (rc_hash rc))),
                                                 (''blockNumber'', V (JNum (rc_blockNumber rc)))],
                                       r_error = None \<rparr>)))))"

text \<open>\<^verbatim>\<open>error instanceof Error ? error.message : 'Unknown error'\<close>\<close>

fun message_or_unknown :: "js_exn \<Rightarrow> string" where
  "message_or_unknown (Err m) = m"
| "message_or_unknown (Thrown s) = ''Unknown error''"

text \<open>The handler: the \<^verbatim>\<open>try\<close>, and lines 356 to 368 of the \<^verbatim>\<open>catch\<close>.\<close>

definition getTransactionReceipt_handler :: "world \<Rightarrow> memory \<Rightarrow> jsval \<Rightarrow> bool \<Rightarrow> run" where
  "getTransactionReceipt_handler w message state callback =
     (case getTransactionReceipt_try w message callback of
        (tr, Inr r) \<Rightarrow> (tr, Inr r)
      | (tr, Inl e) \<Rightarrow>
          (let errText = ''Error getting transaction receipt: '' @ message_or_unknown e
           in if \<not> callback then (tr, Inl not_a_function)
              else (tr @ [Callback errText (failure_content errText)],
                    Inr (failure cross_mark ''POLYGON_ZKEVM_GET_TRANSACTION_RECEIPT''
                           ''receiptRetrieved'' errText [] (as_error e)))))"

subsection \<open>\<^verbatim>\<open>getGasPrice\<close>\<close>

text \<open>\<^verbatim>\<open>Number(x) / 1e9\<close>\<close>

definition gwei :: "jsval \<Rightarrow> fexp" where
  "gwei x = FDiv (FNumber x) (FLit 1000000000)"

text \<open>Lines 117 to 139: the text of a gas price, with the fee data when there is one.\<close>

definition gas_text :: "world \<Rightarrow> int \<Rightarrow> jsval \<Rightarrow> string \<Rightarrow> string" where
  "gas_text w gasPriceInWei feeData methodUsed =
     (let gasPriceInGwei = gwei (JBig gasPriceInWei);
          transferCost = FDiv (FMul gasPriceInGwei (FLit 21000)) (FLit 1000000000);
          swapCost = FDiv (FMul gasPriceInGwei (FLit 150000)) (FLit 1000000000)
      in [CHR 0xE2, CHR 0x9B, CHR 0xBD] @ '' **Current Gas Price (Polygon zkEVM)**\<newline>\<newline>''
         @ [CHR 0xF0, CHR 0x9F, CHR 0x92, CHR 0xB8] @ '' **Gas Price:** '' @ toFixed w gasPriceInGwei 4 @ '' Gwei (''
         @ show_int 10 gasPriceInWei @ '' wei)\<newline>''
         @ [CHR 0xF0, CHR 0x9F, CHR 0x94, CHR 0x97] @ '' **Method:** '' @ methodUsed
         @ (if truthy feeData then
              (if truthy (field feeData ''maxFeePerGas'') then
                 ''\<newline>'' @ [CHR 0xF0, CHR 0x9F, CHR 0x94, CHR 0x9D] @ '' **Max Fee Per Gas:** ''
                 @ toFixed w (gwei (field feeData ''maxFeePerGas'')) 4 @ '' Gwei''
               else [])
              @ (if truthy (field feeData ''maxPriorityFeePerGas'') then
                   ''\<newline>'' @ [CHR 0xE2, CHR 0x9A, CHR 0xA1] @ '' **Max Priority Fee:** ''
                   @ toFixed w (gwei (field feeData ''maxPriorityFeePerGas'')) 4 @ '' Gwei''
                 else [])
            else [])
         @ ''\<newline>\<newline>'' @ [CHR 0xF0, CHR 0x9F, CHR 0x92, CHR 0xB0] @ '' **Estimated Transaction Costs:**\<newline>''
         @ [CHR 0xF0, CHR 0x9F, CHR 0x93, CHR 0xA4] @ '' Simple Transfer: ~'' @ toFixed w transferCost 6 @ '' ETH\<newline>''
         @ [CHR 0xF0, CHR 0x9F, CHR 0x94, CHR 0x84] @ '' Token Swap: ~'' @ toFixed w swapCost 6 @ '' ETH'')"

text \<open>
  Lines 103 to 171: the body of the second \<^verbatim>\<open>try\<close>, for the node at \<open>url\<close>. The inner
  \<^verbatim>\<open>try\<close> leaves \<^verbatim>\<open>feeData\<close> undefined when \<^verbatim>\<open>getFeeData\<close> throws.
\<close>

definition getGasPrice_try :: "world \<Rightarrow> bool \<Rightarrow> string \<Rightarrow> string \<Rightarrow> run" where
  "getGasPrice_try w callback url methodUsed =
     (case send w url ''eth_gasPrice'' [] of
        Inl e \<Rightarrow> ([RpcCall url ''eth_gasPrice'' []], Inl e)
      | Inr gasPrice \<Rightarrow>
          (case BigInt w gasPrice of
             Inl e \<Rightarrow> ([RpcCall url ''eth_gasPrice'' []], Inl e)
           | Inr gasPriceInWei \<Rightarrow>
               (let gasPriceInGwei = gwei (JBig gasPriceInWei);
                    feeData = (case getFeeData w url of Inl e \<Rightarrow> JUndefined | Inr f \<Rightarrow> f);
                    responseText = gas_text w gasPriceInWei feeData methodUsed;
                    transferCost = FDiv (FMul gasPriceInGwei (FLit 21000)) (FLit 1000000000);
                    swapCost = FDiv (FMul gasPriceInGwei (FLit 150000)) (FLit 1000000000)
                in ([RpcCall url ''eth_gasPrice'' [], RpcCall url ''getFeeData'' []]
                    @ notify callback responseText
                        [(''success'', V (JBool True)),
                         (''gasPrice'', V (JStr (show_int 10 gasPriceInWei))),
                         (''gasPriceGwei'', VFloat gasPriceInGwei),
                         (''network'', V (JStr ''polygon-zkevm'')),
                         (''method'', V (JStr methodUsed))],
                    Inr \<lparr> r_success = True,
                          r_text = responseText,
                          r_values = [(''gasPriceRetrieved'', V (JBool True)),
                                      (''gasPriceGwei'', VFloat gasPriceInGwei)],
                          r_data = [(''actionName'', V (JStr ''POLYGON_ZKEVM_GET_GAS_PRICE'')),
                                    (''gasPrice'', V (JStr (show_int 10 gasPriceInWei))),
                                    (''gasPriceGwei'', VFloat gasPriceInGwei),
                                    (''feeData'', V feeData),
                                    (''network'', V (JStr ''polygon-zkevm'')),
                                    (''method'', V (JStr methodUsed)),
                                    (''transferCostEth'', VFloat transferCost),
                                    (''swapCostEth'', VFloat swapCost)],
                          r_error = None \<rparr>))))"

text \<open>
  The handler. Lines 74 to 88 ask the language model inside a \<^verbatim>\<open>try\<close> whose \<^verbatim>\<open>catch\<close>
  only logs: neither its answer nor its exception is used afterwards.
\<close>

definition getGasPrice_handler :: "world \<Rightarrow> memory \<Rightarrow> jsval \<Rightarrow> bool \<Rightarrow> run" where
  "getGasPrice_handler w message state callback =
     (let alchemyApiKey = getSetting w ''ALCHEMY_API_KEY'';
          zkevmRpcUrl = getSetting w ''ZKEVM_RPC_URL''
      in if \<not> present alchemyApiKey \<and> \<not> present zkevmRpcUrl then
           (let errorMessage = config_message
            in (notify callback errorMessage
                  [(''error'', V (JStr errorMessage)), (''success'', V (JBool False))],
                Inr (failure cross_mark ''POLYGON_ZKEVM_GET_GAS_PRICE'' ''gasPriceRetrieved''
                       errorMessage [] (Err errorMessage))))
         else
           (let validated =
                  (case useModel w state of
                     Inl e \<Rightarrow> ()
                   | Inr gasRequestInput \<Rightarrow> ());
                zkevmAlchemyUrl =
                  or_default (getSetting w ''ZKEVM_ALCHEMY_URL'') default_alchemy_url;
                url = (if present alchemyApiKey
                       then zkevmAlchemyUrl @ ''/'' @ setting_text alchemyApiKey
                       else setting_text zkevmRpcUrl);
                methodUsed = (if present alchemyApiKey then ''alchemy'' else ''rpc'')
            in case getGasPrice_try w callback url methodUsed of
                 (tr, Inr r) \<Rightarrow> (LLMCall ''OBJECT_LARGE'' # tr, Inr r)
               | (tr, Inl e) \<Rightarrow>
                   (let errorMessage = ''Failed to retrieve gas price: '' @ exn_text e
                    in (LLMCall ''OBJECT_LARGE'' # tr
                        @ notify callback errorMessage
                            [(''error'', V (JStr errorMessage)), (''success'', V (JBool False))],
                        Inr (failure cross_mark ''POLYGON_ZKEVM_GET_GAS_PRICE''
                               ''gasPriceRetrieved'' errorMessage [] (as_error e))))))"

subsection \<open>\<^verbatim>\<open>getBlockDetailsByNumber\<close>\<close>

text \<open>
  Lines 156 to 216: the attempt through the Alchemy gateway, run when the API key is set.
  It gives the requests made, the block found (if any) and the error messages pushed.
\<close>

definition alchemy_attempt :: "world \<Rightarrow> int \<Rightarrow> event list \<times> jsval option \<times> string list" where
  "alchemy_attempt w blockNumber =
     (let alchemyApiKey = getSetting w ''ALCHEMY_API_KEY'';
          blockNumberHex = ''0x'' @ show_int 16 blockNumber;
          zkevmAlchemyUrl = or_default (getSetting w ''ZKEVM_ALCHEMY_URL'') default_alchemy_url;
          alchemyUrl = zkevmAlchemyUrl @ ''/'' @ setting_text alchemyApiKey;
          params = [JStr blockNumberHex, JBool True];
          asked = [RpcCall alchemyUrl ''eth_getBlockByNumber'' params];
          tried =
            (case fetch w alchemyUrl params of
               Inl e \<Rightarrow> Inl e
             | Inr response \<Rightarrow>
                 if \<not> resp_ok response then
                   Inl (Err (''Alchemy API returned status ''
                             @ show_int 10 (resp_status response) @ '': ''
                             @ resp_statusText response))
                 else
                   (case resp_json response of
                      Inl e \<Rightarrow> Inl e
                    | Inr d \<Rightarrow>
                        if truthy (field d ''error'') then
                          Inl (Err (''Alchemy API returned error: ''
                                    @ js_to_string (field (field d ''error'') ''message'')))
                        else if truthy (field d ''result'') then Inr (Some (field d ''result''))
                        else Inr None))
      in case tried of
           Inl e \<Rightarrow> (asked, None, [''Alchemy API failed: '' @ exn_text e])
         | Inr found \<Rightarrow> (asked, found, []))"

text \<open>Lines 219 to 252: the JSON-RPC fallback, run when no block was found and the URL is set.\<close>

definition rpc_attempt :: "world \<Rightarrow> int \<Rightarrow> event list \<times> jsval option \<times> string list" where
  "rpc_attempt w blockNumber =
     (let zkevmRpcUrl = getSetting w ''ZKEVM_RPC_URL'';
          asked = [RpcCall (setting_text zkevmRpcUrl) ''getBlock'' [JNum blockNumber, JBool True]]
      in case getBlock w (setting_text zkevmRpcUrl) (JNum blockNumber) of
           Inl e \<Rightarrow> (asked, None, [''JSON-RPC fallback failed: '' @ exn_text e])
         | Inr block \<Rightarrow> (asked, (if truthy block then Some block else None), []))"

text \<open>
  Lines 155 to 252: the search. It gives the requests made, \<^verbatim>\<open>blockDetails\<close>,
  \<^verbatim>\<open>methodUsed\<close> (both \<open>None\<close> for \<^verbatim>\<open>null\<close>) and \<^verbatim>\<open>errorMessages\<close>.
\<close>

definition block_search ::
    "world \<Rightarrow> int \<Rightarrow> event list \<times> jsval option \<times> string option \<times> string list" where
  "block_search w blockNumber =
     (let alchemyApiKey = getSetting w ''ALCHEMY_API_KEY'';
          zkevmRpcUrl = getSetting w ''ZKEVM_RPC_URL'';
          (asked1, found1, errors1) =
            (if present alchemyApiKey then alchemy_attempt w blockNumber else ([], None, []));
          (asked2, found2, errors2) =
            (if found1 = None \<and> present zkevmRpcUrl then rpc_attempt w blockNumber
             else ([], None, []))
      in (asked1 @ asked2,
          (case found1 of Some b \<Rightarrow> Some b | None \<Rightarrow> found2),
          (case found1 of
             Some b \<Rightarrow> Some ''alchemy''
           | None \<Rightarrow> (case found2 of Some b \<Rightarrow> Some ''rpc'' | None \<Rightarrow> None)),
          errors1 @ errors2))"

text \<open>\<^verbatim>\<open>methodUsed\<close> inside a template literal, and as a value.\<close>

fun method_text :: "string option \<Rightarrow> string" where
  "method_text None = ''null''"
| "method_text (Some k) = k"

fun method_value :: "string option \<Rightarrow> jsval" where
  "method_value None = JNull"
| "method_value (Some k) = JStr k"

text \<open>Lines 254 to 309: the result, after the requests \<open>asked\<close>.\<close>

definition block_report ::
    "world \<Rightarrow> bool \<Rightarrow> int \<Rightarrow> event list \<Rightarrow> jsval option \<Rightarrow> string option \<Rightarrow> string list
     \<Rightarrow> run" where
  "block_report w callback blockNumber asked blockDetails methodUsed errorMessages =
     (case blockDetails of
        Some b \<Rightarrow>
          (let zkevmFields = JObj [(''zkProverVersion'', field b ''zkProverVersion''),
                                   (''batchIndex'', field b ''batchIndex'')];
               successText =
                 ''Here are the details for Polygon zkEVM block '' @ show_int 10 blockNumber
                 @ '' (via '' @ method_text methodUsed @ ''):\<newline>\<newline>''
                 @ [CHR 0x60, CHR 0x60, CHR 0x60] @ ''json\<newline>'' @ stringify w b
                 @ ''\<newline>'' @ [CHR 0x60, CHR 0x60, CHR 0x60]
                 @ ''\<newline>ZK-specific fields: '' @ stringify w zkevmFields
           in (asked @ notify callback successText
                         [(''success'', V (JBool True)), (''blockNumber'', V (JNum blockNumber))],
               Inr \<lparr> r_success = True,
                     r_text = successText,
                     r_values = [(''blockRetrieved'', V (JBool True)),
                                 (''blockNumber'', V (JNum blockNumber))],
                     r_data = [(''actionName'',
                                V (JStr ''POLYGON_ZKEVM_GET_BLOCK_DETAILS_BY_NUMBER'')),
                               (''block'', V b),
                               (''zkevmFields'', V zkevmFields),
                               (''network'', V (JStr ''polygon-zkevm'')),
                               (''timestamp'', V (JNum (now w 0))),
                               (''method'', V (method_value methodUsed))],
                     r_error = None \<rparr>))
      | None \<Rightarrow>
          (let errorMessage =
                 ''Failed to retrieve details for Polygon zkEVM block ''
                 @ show_int 10 blockNumber @ '' using both Alchemy and RPC. Errors: ''
                 @ join ''; '' errorMessages @ ''. It'' @ [CHR 0x27]
                 @ ''s possible the block number is invalid or the block does not exist yet.''
           in (asked @ notify callback (cross_mark @ '' '' @ errorMessage)
                         (failure_content errorMessage),
               Inr (failure cross_mark ''POLYGON_ZKEVM_GET_BLOCK_DETAILS_BY_NUMBER''
                      ''blockRetrieved'' errorMessage
                      [(''errors'', V (JArr (map JStr errorMessages))),
                       (''blockNumber'', V (JNum blockNumber))]
                      (Err errorMessage)))))"

text \<open>Lines 148 to 309: from a valid block number to the result.\<close>

definition getBlockDetailsByNumber_query :: "world \<Rightarrow> bool \<Rightarrow> int \<Rightarrow> run" where
  "getBlockDetailsByNumber_query w callback blockNumber =
     (case block_search w blockNumber of
        (asked, blockDetails, methodUsed, errorMessages) \<Rightarrow>
          block_report w callback blockNumber
            (LLMCall ''getBlockDetailsByNumberAction'' # asked)
            blockDetails methodUsed errorMessages)"

text \<open>Lines 82 to 99: the body of the \<^verbatim>\<open>try\<close>, from the answer of the language model.\<close>

definition getBlockDetailsByNumber_extract :: "js_exn + jsval \<Rightarrow> js_exn + jsval" where
  "getBlockDetailsByNumber_extract answer =
     (case answer of
        Inl e \<Rightarrow> Inl e
      | Inr blockNumberInput \<Rightarrow>
          if truthy (field blockNumberInput ''error'') then
            Inl (Err (js_to_string (field blockNumberInput ''error'')))
          else Inr blockNumberInput)"

definition getBlockDetailsByNumber_handler :: "world \<Rightarrow> memory \<Rightarrow> jsval \<Rightarrow> bool \<Rightarrow> run" where
  "getBlockDetailsByNumber_handler w message state callback =
     (let alchemyApiKey = getSetting w ''ALCHEMY_API_KEY'';
          zkevmRpcUrl = getSetting w ''ZKEVM_RPC_URL''
      in if \<not> present alchemyApiKey \<and> \<not> present zkevmRpcUrl then
           (let errorMessage = config_message
            in (notify callback errorMessage (failure_content errorMessage),
                Inr (failure cross_mark ''POLYGON_ZKEVM_GET_BLOCK_DETAILS_BY_NUMBER''
                       ''blockRetrieved'' errorMessage [] (Err errorMessage))))
         else
           case getBlockDetailsByNumber_extract
                  (callLLMWithTimeout w state ''getBlockDetailsByNumberAction'') of
             Inl e \<Rightarrow>
               (let errorMessage = ''[getBlockDetailsByNumberAction] OBJECT_LARGE model failed''
                in (LLMCall ''getBlockDetailsByNumberAction''
                    # notify callback errorMessage (failure_content errorMessage),
                    Inr (failure cross_mark ''POLYGON_ZKEVM_GET_BLOCK_DETAILS_BY_NUMBER''
                           ''blockRetrieved'' errorMessage [] (Err errorMessage))))
           | Inr blockNumberInput \<Rightarrow>
               (let blockNumber = field blockNumberInput ''blockNumber''
                in if \<not> truthy blockNumber \<or> \<not> is_number blockNumber then
                     (let errorMessage = ''Invalid block number extracted from input''
                      in (LLMCall ''getBlockDetailsByNumberAction''
                          # notify callback errorMessage (failure_content errorMessage),
                          Inr (failure cross_mark ''POLYGON_ZKEVM_GET_BLOCK_DETAILS_BY_NUMBER''
                                 ''blockRetrieved'' errorMessage [] (Err errorMessage))))
                   else getBlockDetailsByNumber_query w callback (the_number blockNumber)))"

subsection \<open>\<^verbatim>\<open>getBatchInfo\<close>\<close>

text \<open>The first characters of the success text, as the source file holds them.\<close>

definition batch_box :: string where
  "batch_box = [CHR 0xEF, CHR 0xA3, CHR 0xBF, CHR 0xC3, CHR 0xBC, CHR 0xC3, CHR 0xAC, CHR 0xC2, CHR 0xB6]"

text \<open>Lines 85 to 104: the body of the first \<^verbatim>\<open>try\<close>.\<close>

definition getBatchInfo_extract :: "js_exn + jsval \<Rightarrow> js_exn + jsval" where
  "getBatchInfo_extract answer =
     (case answer of
        Inl e \<Rightarrow> Inl e
      | Inr batchInput \<Rightarrow>
          if truthy (field batchInput ''error'') then
            Inl (Err (js_to_string (field batchInput ''error'')))
          else if \<not> truthy (field batchInput ''batchNumber'')
                  \<or> \<not> is_number (field batchInput ''batchNumber'') then
            Inl (Err ''Invalid batch number received from LLM.'')
          else Inr batchInput)"

text \<open>
  Lines 149 to 198: the two zkEVM methods in turn. It gives the requests made, the batch
  data (when a call returned a truthy value) and the error messages pushed.
\<close>

definition batch_attempt :: "world \<Rightarrow> string \<Rightarrow> jsval \<Rightarrow> event list \<times> jsval option \<times> string list" where
  "batch_attempt w url batchNumber =
     (case send w url ''zkevm_getBatchByNumber'' [batchNumber] of
        Inr batchData \<Rightarrow>
          ([RpcCall url ''zkevm_getBatchByNumber'' [batchNumber]],
           (if truthy batchData then Some batchData else None), [])
      | Inl batchError \<Rightarrow>
          (case send w url ''zkevm_getBatch'' [batchNumber] of
             Inr batchData \<Rightarrow>
               ([RpcCall url ''zkevm_getBatchByNumber'' [batchNumber],
                 RpcCall url ''zkevm_getBatch'' [batchNumber]],
                (if truthy batchData then Some batchData else None), [])
           | Inl altError \<Rightarrow>
               ([RpcCall url ''zkevm_getBatchByNumber'' [batchNumber],
                 RpcCall url ''zkevm_getBatch'' [batchNumber]],
                None,
                [''Failed to get batch info: ''
                 @ ''Batch information not available via RPC methods''])))"

text \<open>Lines 200 to 253: the result, after the requests \<open>asked\<close>.\<close>

definition batch_report ::
    "world \<Rightarrow> bool \<Rightarrow> jsval \<Rightarrow> string \<Rightarrow> event list \<Rightarrow> jsval option \<Rightarrow> string list
     \<Rightarrow> run" where
  "batch_report w callback batchNumber methodUsed asked found errorMessages =
     (case found of
        Some batchData \<Rightarrow>
          (let blockRange = js_or (field batchData ''blockRange'') JUndefined;
               status = js_or (field batchData ''status'') (JStr ''unknown'');
               timestamp = js_or (field batchData ''timestamp'') (JNum (now w 0));
               transactionCount = js_or (field batchData ''transactionCount'') (JNum 0);
               batchInfo = JObj [(''batchNumber'', batchNumber),
                                 (''blockRange'', blockRange),
                                 (''status'', status),
                                 (''timestamp'', timestamp),
                                 (''transactionCount'', transactionCount),
                                 (''method'', JStr methodUsed)];
               responseText =
                 batch_box @ '' **Batch Information (Polygon zkEVM)**\<newline>\<newline>''
                 @ ''**Batch Number:** '' @ js_to_string batchNumber
                 @ ''\<newline>**Status:** '' @ js_to_string status
                 @ ''\<newline>**Block Range:** ''
                 @ (if truthy blockRange
                    then js_to_string (field blockRange ''start'') @ '' - ''
                         @ js_to_string (field blockRange ''end'')
                    else ''N/A'')
                 @ ''\<newline>**Transaction Count:** ''
                 @ js_to_string (js_or transactionCount (JStr ''N/A''))
                 @ ''\<newline>**Method:** '' @ methodUsed @ ''\<newline>\<newline>''
                 @ (if length errorMessages > 0
                    then ''\<newline>**Warnings:**\<newline>''
                         @ join ''\<newline>'' (map (\<lambda>msg. ''- '' @ msg) errorMessages)
                    else [])
           in (asked
               @ notify callback responseText
                   [(''success'', V (JBool True)), (''batchNumber'', V batchNumber)],
               Inr \<lparr> r_success = True,
                     r_text = responseText,
                     r_values = [(''batchRetrieved'', V (JBool True)),
                                 (''batchNumber'', V batchNumber)],
                     r_data = [(''actionName'', V (JStr ''POLYGON_ZKEVM_GET_BATCH_INFO'')),
                               (''batchInfo'', V batchInfo),
                               (''network'', V (JStr ''polygon-zkevm'')),
                               (''timestamp'',
                                V (JNum (if truthy (field batchData ''timestamp'')
                                         then now w 0 else now w 1))),
                               (''method'', V (JStr methodUsed))],
                     r_error = None \<rparr>))
      | None \<Rightarrow>
          (let errorMessage =
                 ''Failed to retrieve batch information for batch ''
                 @ js_to_string batchNumber @ ''. '' @ join ''; '' errorMessages
           in (asked
               @ notify callback (batch_mark @ '' '' @ errorMessage)
                   (failure_content errorMessage),
               Inr (failure batch_mark ''POLYGON_ZKEVM_GET_BATCH_INFO'' ''batchRetrieved''
                      errorMessage
                      [(''errors'', V (JArr (map JStr errorMessages))),
                       (''batchNumber'', V batchNumber)]
                      (Err errorMessage)))))"

text \<open>Lines 129 to 253: from a valid batch number to the result.\<close>

definition getBatchInfo_query :: "world \<Rightarrow> bool \<Rightarrow> jsval \<Rightarrow> run" where
  "getBatchInfo_query w callback batchNumber =
     (let alchemyApiKey = getSetting w ''ALCHEMY_API_KEY'';
          zkevmRpcUrl = getSetting w ''ZKEVM_RPC_URL'';
          zkevmAlchemyUrl = or_default (getSetting w ''ZKEVM_ALCHEMY_URL'') default_alchemy_url;
          url = (if present alchemyApiKey
                 then zkevmAlchemyUrl @ ''/'' @ setting_text alchemyApiKey
                 else setting_text zkevmRpcUrl);
          methodUsed = (if present alchemyApiKey then ''alchemy'' else ''rpc'')
      in case batch_attempt w url batchNumber of
           (asked, found, errorMessages) \<Rightarrow>
             batch_report w callback batchNumber methodUsed
               (LLMCall ''getBatchInfoAction'' # asked) found errorMessages)"

definition getBatchInfo_handler :: "world \<Rightarrow> memory \<Rightarrow> jsval \<Rightarrow> bool \<Rightarrow> run" where
  "getBatchInfo_handler w message state callback =
     (let alchemyApiKey = getSetting w ''ALCHEMY_API_KEY'';
          zkevmRpcUrl = getSetting w ''ZKEVM_RPC_URL''
      in if \<not> present alchemyApiKey \<and> \<not> present zkevmRpcUrl then
           (let errorMessage = config_message
            in (notify callback errorMessage (failure_content errorMessage),
                Inr (failure batch_mark ''POLYGON_ZKEVM_GET_BATCH_INFO'' ''batchRetrieved''
                       errorMessage [] (Err errorMessage))))
         else
           case getBatchInfo_extract (callLLMWithTimeout w state ''getBatchInfoAction'') of
             Inl e \<Rightarrow>
               (let errorMessage =
                      ''[getBatchInfoAction] Failed to extract batch number from input: ''
                      @ exn_text e
                in (LLMCall ''getBatchInfoAction''
                    # notify callback errorMessage (failure_content errorMessage),
                    Inr (failure batch_mark ''POLYGON_ZKEVM_GET_BATCH_INFO'' ''batchRetrieved''
                           errorMessage [] (as_error e))))
           | Inr batchInput \<Rightarrow> getBatchInfo_query w callback (field batchInput ''batchNumber''))"

section \<open>Observations on a run\<close>

text \<open>The URLs of the requests to a node, in order.\<close>

fun rpc_urls :: "event list \<Rightarrow> string list" where
  "rpc_urls [] = []"
| "rpc_urls (RpcCall url m ps # es) = url # rpc_urls es"
| "rpc_urls (LLMCall n # es) = rpc_urls es"
| "rpc_urls (Callback t c # es) = rpc_urls es"

definition no_rpc :: "event list \<Rightarrow> bool" where
  "no_rpc tr = (rpc_urls tr = [])"

text \<open>No request to a node stands before the first call of the language model.\<close>

fun llm_first :: "event list \<Rightarrow> bool" where
  "llm_first [] = True"
| "llm_first (LLMCall n # es) = True"
| "llm_first (RpcCall url m ps # es) = False"
| "llm_first (Callback t c # es) = llm_first es"

text \<open>A call of the callback with the message \<open>m\<close> and the content of a failure.\<close>

fun failure_callback :: "string \<Rightarrow> event \<Rightarrow> bool" where
  "failure_callback m (Callback t c) =
     (t = m \<and> map_of c ''success'' = Some (V (JBool False))
      \<and> map_of c ''error'' = Some (V (JStr m)))"
| "failure_callback m (RpcCall url k ps) = False"
| "failure_callback m (LLMCall n) = False"

text \<open>The handler returned a result, with \<^verbatim>\<open>success\<close> true or false.\<close>

definition succeeded :: "run \<Rightarrow> bool" where
  "succeeded out = (case snd out of Inl e \<Rightarrow> False | Inr r \<Rightarrow> r_success r)"

definition failed :: "run \<Rightarrow> bool" where
  "failed out = (case snd out of Inl e \<Rightarrow> False | Inr r \<Rightarrow> \<not> r_success r)"

text \<open>The handler rejected: the exception left it.\<close>

definition escaped :: "run \<Rightarrow> bool" where
  "escaped out = (case snd out of Inl e \<Rightarrow> True | Inr r \<Rightarrow> False)"

text \<open>\<^verbatim>\<open>data.method\<close> of the result, when there is one.\<close>

definition method_of :: "run \<Rightarrow> outv option" where
  "method_of out = (case snd out of Inl e \<Rightarrow> None | Inr r \<Rightarrow> map_of (r_data r) ''method'')"

text \<open>The text of the result, empty when the handler rejected.\<close>

definition text_of :: "run \<Rightarrow> string" where
  "text_of out = (case snd out of Inl e \<Rightarrow> [] | Inr r \<Rightarrow> r_text r)"

text \<open>The Alchemy gateway with the key, and the node and method the settings select.\<close>

definition alchemy_endpoint :: "world \<Rightarrow> string" where
  "alchemy_endpoint w =
     or_default (getSetting w ''ZKEVM_ALCHEMY_URL'') default_alchemy_url
     @ ''/'' @ setting_text (getSetting w ''ALCHEMY_API_KEY'')"

definition selected_endpoint :: "world \<Rightarrow> string" where
  "selected_endpoint w =
     (if present (getSetting w ''ALCHEMY_API_KEY'') then alchemy_endpoint w
      else setting_text (getSetting w ''ZKEVM_RPC_URL''))"

definition selected_method :: "world \<Rightarrow> string" where
  "selected_method w =
     (if present (getSetting w ''ALCHEMY_API_KEY'') then ''alchemy'' else ''rpc'')"

definition configured :: "world \<Rightarrow> bool" where
  "configured w =
     (present (getSetting w ''ALCHEMY_API_KEY'') \<or> present (getSetting w ''ZKEVM_RPC_URL''))"


text \<open>
  The failure shape of claim C10 for the action \<open>name\<close>: the text starts with the cross mark,
  \<^verbatim>\<open>values.error\<close> is true, there is an error message, \<^verbatim>\<open>data.actionName\<close> is the name and
  the error is not null.
\<close>

definition failure_shape :: "string \<Rightarrow> action_result \<Rightarrow> bool" where
  "failure_shape name r =
     (prefix cross_mark (r_text r)
      \<and> map_of (r_values r) ''error'' = Some (V (JBool True))
      \<and> map_of (r_values r) ''errorMessage'' \<noteq> None
      \<and> map_of (r_data r) ''actionName'' = Some (V (JStr name))
      \<and> r_error r \<noteq> None)"

text \<open>The same with the mark left open.\<close>

definition failure_shape_with :: "string \<Rightarrow> string \<Rightarrow> action_result \<Rightarrow> bool" where
  "failure_shape_with mark name r =
     (prefix mark (r_text r)
      \<and> map_of (r_values r) ''error'' = Some (V (JBool True))
      \<and> map_of (r_values r) ''errorMessage'' \<noteq> None
      \<and> map_of (r_data r) ''actionName'' = Some (V (JStr name))
      \<and> r_error r \<noteq> None)"

text \<open>
  The shape of a result of the action \<open>name\<close>: a success names the action in its data, a
  failure has the failure shape with the given mark.
\<close>

definition well_shaped :: "string \<Rightarrow> string \<Rightarrow> action_result \<Rightarrow> bool" where
  "well_shaped mark name r =
     (if r_success r then map_of (r_data r) ''actionName'' = Some (V (JStr name))
      else failure_shape_with mark name r)"

text \<open>The result of a run, when it has one, satisfies \<open>P\<close>.\<close>

definition result_ok :: "(action_result \<Rightarrow> bool) \<Rightarrow> run \<Rightarrow> bool" where
  "result_ok P out = (case snd out of Inl e \<Rightarrow> True | Inr r \<Rightarrow> P r)"

text \<open>The text has a transaction hash somewhere: \<^verbatim>\<open>0x\<close> and 64 hexadecimal digits.\<close>

definition contains_hash :: "string \<Rightarrow> bool" where
  "contains_hash t =
     (\<exists>before h after. t = before @ ''0x'' @ h @ after \<and> length h = 64 \<and> list_all is_hex h)"

text \<open>
  The status line of claim C3: the success mark exactly when the status of the receipt is 1,
  the failure mark otherwise.
\<close>

definition check_mark :: string where
  "check_mark = [CHR 0xE2, CHR 0x9C, CHR 0x85]"

definition status_line :: "receipt \<Rightarrow> string" where
  "status_line rc =
     [CHR 0xF0, CHR 0x9F, CHR 0x93, CHR 0x8A] @ '' Status: ''
     @ (if rc_status rc = Some 1 then check_mark @ '' Success'' else cross_mark @ '' Failed'')
     @ ''\<newline>''"

text \<open>What claim C2 asks of a run with no credential.\<close>

definition reports_missing_configuration :: "bool \<Rightarrow> run \<Rightarrow> bool" where
  "reports_missing_configuration callback out =
     (case snd out of
        Inl e \<Rightarrow> False
      | Inr r \<Rightarrow>
          r_success r = False
          \<and> suffix config_message (r_text r)
          \<and> r_error r = Some (Err config_message)
          \<and> length (fst out) = (if callback then 1 else 0)
          \<and> list_all (failure_callback config_message) (fst out)
          \<and> no_rpc (fst out))"

subsection \<open>Concrete inputs\<close>

text \<open>A world where nothing is set and every call fails.\<close>

definition silent :: world where
  "silent =
     \<lparr> getSetting = (\<lambda>k. None),
       callLLMWithTimeout = (\<lambda>st n. Inl (Err ''model unavailable'')),
       useModel = (\<lambda>st. Inl (Err ''model unavailable'')),
       getStorage = (\<lambda>url a p b. Inl (Err ''network down'')),
       getTransactionReceipt = (\<lambda>url h. Inl (Err ''network down'')),
       send = (\<lambda>url m ps. Inl (Err ''network down'')),
       getFeeData = (\<lambda>url. Inl (Err ''network down'')),
       fetch = (\<lambda>url ps. Inl (Err ''network down'')),
       getBlock = (\<lambda>url n. Inl (Err ''network down'')),
       now = (\<lambda>i. 0),
       BigInt = (\<lambda>v. Inl (Err ''Cannot convert to a BigInt'')),
       parseInt16 = (\<lambda>s. None),
       toFixed = (\<lambda>x d. ''0''),
       stringify = (\<lambda>v. ''{}'') \<rparr>"

definition with_key :: settings where
  "with_key = (\<lambda>k. if k = ''ALCHEMY_API_KEY'' then Some ''key'' else None)"

definition with_url :: settings where
  "with_url = (\<lambda>k. if k = ''ZKEVM_RPC_URL'' then Some ''http://node'' else None)"

definition sample_hash :: string where
  "sample_hash = ''0x'' @ replicate 64 (CHR ''a'')"

definition sample_receipt :: receipt where
  "sample_receipt =
     \<lparr> rc_hash = sample_hash, rc_blockNumber = 7, rc_from = ''0x01'', rc_to = None,
       rc_status = Some 1, rc_gasUsed = 21000, rc_gasPrice = 0, rc_index = 0,
       rc_contractAddress = None, rc_logs = 0 \<rparr>"

definition with_both :: settings where
  "with_both =
     (\<lambda>k. if k = ''ALCHEMY_API_KEY'' then Some ''key''
          else if k = ''ZKEVM_RPC_URL'' then Some ''http://node'' else None)"

text \<open>The key is set, the model extracts an address and the slot 1, the node is down.\<close>

definition storage_down :: world where
  "storage_down =
     silent \<lparr> getSetting := with_key,
              callLLMWithTimeout :=
                (\<lambda>st n. Inr (JObj [(''address'', JStr ''0xabc''), (''position'', JNum 1)])) \<rparr>"

text \<open>The model extracts the slot 0 and the block number 0.\<close>

definition zero_extracted :: world where
  "zero_extracted =
     silent \<lparr> getSetting := with_key,
              callLLMWithTimeout :=
                (\<lambda>st n. Inr (JObj [(''address'', JStr ''0xabc''), (''position'', JNum 0),
                                   (''blockNumber'', JNum 0)])) \<rparr>"

text \<open>Nothing is set and the node has the receipt; the same with the key set.\<close>

definition receipt_known :: world where
  "receipt_known = silent \<lparr> getTransactionReceipt := (\<lambda>url h. Inr (Some sample_receipt)) \<rparr>"

definition receipt_known_key :: world where
  "receipt_known_key = receipt_known \<lparr> getSetting := with_key \<rparr>"

text \<open>The key is set and the node has no receipt.\<close>

definition receipt_unknown :: world where
  "receipt_unknown =
     silent \<lparr> getSetting := with_key, getTransactionReceipt := (\<lambda>url h. Inr None) \<rparr>"

text \<open>The URL is set, the model throws and the node answers the gas price 1.\<close>

definition gas_known :: world where
  "gas_known =
     silent \<lparr> getSetting := with_url,
              send := (\<lambda>url k ps. Inr (JStr ''0x1'')),
              BigInt := (\<lambda>v. Inr 1) \<rparr>"

text \<open>
  Both settings are there, the model extracts the block number 5, the gateway is down and
  the node has the block.
\<close>

definition block_by_rpc :: world where
  "block_by_rpc =
     silent \<lparr> getSetting := with_both,
              callLLMWithTimeout := (\<lambda>st n. Inr (JObj [(''blockNumber'', JNum 5)])),
              getBlock := (\<lambda>url n. Inr (JObj [(''number'', JNum 5)])) \<rparr>"

text \<open>The property of claim C7, for one \<^verbatim>\<open>validate\<close> function \<open>v\<close>.\<close>

definition credential_gate :: "(settings \<Rightarrow> memory \<Rightarrow> jsval \<Rightarrow> bool) \<Rightarrow> bool" where
  "credential_gate v =
     (\<forall>s m st m' st' pk.
        v s m st = (present (s ''ALCHEMY_API_KEY'') \<or> present (s ''ZKEVM_RPC_URL''))
      \<and> v s m' st' = v s m st
      \<and> v (s(''PRIVATE_KEY'' := pk)) m st = v s m st)"

section \<open>Properties of the handlers\<close>

subsection \<open>The hash pattern and the receipt handler\<close>

lemma suffix_config: "suffix m (mark @ c # m)"
  by (metis append.assoc append_Cons append_Nil suffixI)

lemma hash_here_iff:
  "hash_here s \<longleftrightarrow> (\<exists>h after. s = ''0x'' @ h @ after \<and> length h = 64 \<and> list_all is_hex h)"
proof
  assume h: "hash_here s"
  let ?h = "take 64 (drop 2 s)"
  have "s = take 2 s @ ?h @ drop 64 (drop 2 s)" by (metis append_take_drop_id)
  with h show "\<exists>h after. s = ''0x'' @ h @ after \<and> length h = 64 \<and> list_all is_hex h"
    unfolding hash_here_def by metis
next
  assume "\<exists>h after. s = ''0x'' @ h @ after \<and> length h = 64 \<and> list_all is_hex h"
  then obtain h after where "s = ''0x'' @ h @ after" "length h = 64" "list_all is_hex h" by blast
  then show "hash_here s" by (simp add: hash_here_def)
qed

lemma contains_hash_Nil: "\<not> contains_hash []"
  by (simp add: contains_hash_def)

lemma contains_hash_Cons: "contains_hash (c # cs) \<longleftrightarrow> hash_here (c # cs) \<or> contains_hash cs"
proof
  assume "contains_hash (c # cs)"
  then obtain b h a where eq: "c # cs = b @ ''0x'' @ h @ a" and h: "length h = 64" "list_all is_hex h"
    unfolding contains_hash_def by blast
  show "hash_here (c # cs) \<or> contains_hash cs"
  proof (cases b)
    case Nil
    with eq h show ?thesis unfolding hash_here_iff by auto
  next
    case (Cons x b')
    with eq have "cs = b' @ ''0x'' @ h @ a" by simp
    with h show ?thesis unfolding contains_hash_def by blast
  qed
next
  assume "hash_here (c # cs) \<or> contains_hash cs"
  then show "contains_hash (c # cs)"
  proof
    assume "hash_here (c # cs)"
    then obtain h a where "c # cs = [] @ ''0x'' @ h @ a" "length h = 64" "list_all is_hex h"
      unfolding hash_here_iff by auto
    then show ?thesis unfolding contains_hash_def by blast
  next
    assume "contains_hash cs"
    then obtain b h a where "cs = b @ ''0x'' @ h @ a" "length h = 64" "list_all is_hex h"
      unfolding contains_hash_def by blast
    then have "c # cs = (c # b) @ ''0x'' @ h @ a" by simp
    with \<open>length h = 64\<close> \<open>list_all is_hex h\<close> show ?thesis unfolding contains_hash_def by blast
  qed
qed

lemma match_hash_None_iff: "match_hash t = None \<longleftrightarrow> \<not> contains_hash t"
  by (induction t) (simp_all add: contains_hash_Nil contains_hash_Cons)

lemma match_hash_Some:
  assumes "match_hash t = Some h"
  shows "length h = 66 \<and> take 2 h = ''0x'' \<and> list_all is_hex (drop 2 h) \<and> sublist h t"
  using assms
proof (induction t)
  case Nil
  then show ?case by simp
next
  case (Cons c cs)
  show ?case
  proof (cases "hash_here (c # cs)")
    case True
    then obtain x a where s: "c # cs = ''0x'' @ x @ a" and x: "length x = 64" "list_all is_hex x"
      unfolding hash_here_iff by blast
    from True Cons.prems have h: "h = take 66 (c # cs)" by simp
    with s x have "h = ''0x'' @ x" by simp
    moreover have "sublist (take 66 (c # cs)) (c # cs)"
      by (metis append_take_drop_id prefix_def prefix_imp_sublist)
    ultimately show ?thesis using x h by simp
  next
    case False
    with Cons.prems have "match_hash cs = Some h" by simp
    then show ?thesis using Cons.IH by (simp add: sublist_Cons_right)
  qed
qed

lemma receipt_without_callback: "escaped (getTransactionReceipt_handler w m st False)"
  by (simp add: getTransactionReceipt_handler_def getTransactionReceipt_try_def escaped_def
      Let_def split: option.splits sum.splits prod.splits)

lemma receipt_found:
  assumes "match_hash t = Some h"
    and "getTransactionReceipt w (receipt_url w) h = Inr (Some rc)"
  shows "getTransactionReceipt_handler w (Some t) st True =
     ([RpcCall (receipt_url w) ''getTransactionReceipt'' [JStr h],
       Callback (receipt_text w h rc)
         [(''success'', V (JBool True)), (''hash'', V (JStr (rc_hash rc)))]],
      Inr \<lparr> r_success = True, r_text = receipt_text w h rc,
            r_values = [(''receiptRetrieved'', V (JBool True)), (''hash'', V (JStr (rc_hash rc)))],
            r_data = [(''actionName'', V (JStr ''POLYGON_ZKEVM_GET_TRANSACTION_RECEIPT'')),
                      (''hash'', V (JStr (rc_hash rc))),
                      (''blockNumber'', V (JNum (rc_blockNumber rc)))],
            r_error = None \<rparr>)"
  using assms
  by (simp add: getTransactionReceipt_handler_def getTransactionReceipt_try_def Let_def)

lemma receipt_no_hash:
  assumes "match_hash t = None"
  shows "getTransactionReceipt_handler w (Some t) st True =
     (let errorText = ''Please provide a valid transaction hash (0x... 64 characters) to get the transaction receipt.''
      in ([Callback errorText (failure_content errorText)],
          Inr (failure cross_mark ''POLYGON_ZKEVM_GET_TRANSACTION_RECEIPT''
                 ''receiptRetrieved'' errorText [] (Err errorText))))"
  using assms
  by (simp add: getTransactionReceipt_handler_def getTransactionReceipt_try_def Let_def)

lemma receipt_not_found:
  assumes "match_hash t = Some h"
    and "getTransactionReceipt w (receipt_url w) h = Inr None"
  shows "getTransactionReceipt_handler w (Some t) st True =
     (let errText = ''Transaction receipt not found: '' @ h
                    @ ''. The transaction may be pending or does not exist.''
      in ([RpcCall (receipt_url w) ''getTransactionReceipt'' [JStr h],
           Callback errText (failure_content errText)],
          Inr (failure cross_mark ''POLYGON_ZKEVM_GET_TRANSACTION_RECEIPT''
                 ''receiptRetrieved'' errText [] (Err errText))))"
  using assms
  by (simp add: getTransactionReceipt_handler_def getTransactionReceipt_try_def Let_def)

subsection \<open>Reading a run\<close>

lemma result_ok_simps [simp]:
  "result_ok P (tr, Inr r) = P r"
  "result_ok P (tr, Inl e) = True"
  by (simp_all add: result_ok_def)

lemma succeeded_simps [simp]:
  "succeeded (tr, Inr r) = r_success r"
  "succeeded (tr, Inl e) = False"
  by (simp_all add: succeeded_def)

lemma failed_simps [simp]:
  "failed (tr, Inr r) = (\<not> r_success r)"
  "failed (tr, Inl e) = False"
  by (simp_all add: failed_def)

lemma escaped_simps [simp]:
  "escaped (tr, Inr r) = False"
  "escaped (tr, Inl e) = True"
  by (simp_all add: escaped_def)

lemma method_of_simps [simp]:
  "method_of (tr, Inr r) = map_of (r_data r) ''method''"
  "method_of (tr, Inl e) = None"
  by (simp_all add: method_of_def)

lemma failure_simps [simp]:
  "r_success (failure mark name flag msg extra e) = False"
  "r_text (failure mark name flag msg extra e) = mark @ '' '' @ msg"
  "r_error (failure mark name flag msg extra e) = Some e"
  "map_of (r_data (failure mark name flag msg extra e)) ''method'' = map_of extra ''method''"
  "map_of (r_data (failure mark name flag msg extra e)) ''actionName'' = Some (V (JStr name))"
  by (simp_all add: failure_def)

lemma rpc_urls_append [simp]: "rpc_urls (xs @ ys) = rpc_urls xs @ rpc_urls ys"
  by (induction xs rule: rpc_urls.induct) simp_all

lemma rpc_urls_notify [simp]: "rpc_urls (notify cb t c) = []"
  by (simp add: notify_def)

lemma no_rpc_simps [simp]:
  "no_rpc []"
  "no_rpc (LLMCall n # es) = no_rpc es"
  "no_rpc (Callback t c # es) = no_rpc es"
  "no_rpc (RpcCall u k ps # es) = False"
  "no_rpc (notify cb t c)"
  by (simp_all add: no_rpc_def)

lemma llm_first_notify [simp]: "llm_first (notify cb t c)"
  by (simp add: notify_def)

lemma failure_well_shaped:
  "flag \<noteq> ''error'' \<Longrightarrow> flag \<noteq> ''errorMessage'' \<Longrightarrow>
   well_shaped mark name (failure mark name flag msg extra e)"
  by (simp add: well_shaped_def failure_shape_with_def failure_def)

lemma success_well_shaped:
  "well_shaped mark name
     \<lparr> r_success = True, r_text = t, r_values = vs,
       r_data = (''actionName'', V (JStr name)) # d, r_error = e \<rparr>"
  by (simp add: well_shaped_def)

lemmas shape_simps = failure_well_shaped success_well_shaped Let_def

subsection \<open>\<^verbatim>\<open>getStorageAt\<close>\<close>

lemma storage_unconfigured:
  "\<not> configured w \<Longrightarrow>
   getStorageAt_handler w m st cb =
     (notify cb config_message (failure_content config_message),
      Inr (failure cross_mark ''POLYGON_ZKEVM_GET_STORAGE'' ''storageRetrieved''
             config_message [] (Err config_message)))"
  by (simp add: getStorageAt_handler_def configured_def Let_def)

lemma storage_configured:
  "configured w \<Longrightarrow>
   getStorageAt_handler w m st cb =
     (case getStorageAt_extract (callLLMWithTimeout w st ''getStorageAtAction'') of
        Inl e \<Rightarrow>
          (LLMCall ''getStorageAtAction''
           # notify cb (''[getStorageAtAction] Failed to extract storage parameters from input: ''
                        @ exn_text e)
               (failure_content
                  (''[getStorageAtAction] Failed to extract storage parameters from input: ''
                   @ exn_text e)),
           Inr (failure cross_mark ''POLYGON_ZKEVM_GET_STORAGE'' ''storageRetrieved''
                  (''[getStorageAtAction] Failed to extract storage parameters from input: ''
                   @ exn_text e) [] (as_error e)))
      | Inr storageInput \<Rightarrow> getStorageAt_query w cb storageInput)"
  by (auto simp: getStorageAt_handler_def configured_def Let_def split: sum.splits)

lemma storage_query_shape:
  "result_ok (well_shaped cross_mark ''POLYGON_ZKEVM_GET_STORAGE'') (getStorageAt_query w cb v)"
  by (simp add: getStorageAt_query_def shape_simps split: sum.splits)

lemma storage_shape:
  "result_ok (well_shaped cross_mark ''POLYGON_ZKEVM_GET_STORAGE'')
     (getStorageAt_handler w m st cb)"
  by (cases "configured w")
    (simp_all add: storage_unconfigured storage_configured storage_query_shape
      failure_well_shaped split: sum.splits)









lemma storage_provider_failure:
  assumes "configured w"
    and "getStorageAt_extract (callLLMWithTimeout w st ''getStorageAtAction'') = Inr v"
    and "getStorage w (selected_endpoint w) (field v ''address'') (field v ''position'')
           (js_or (field v ''blockTag'') (JStr ''latest'')) = Inl e"
  shows "getStorageAt_handler w m st cb =
           ([LLMCall ''getStorageAtAction'',
             RpcCall (selected_endpoint w) ''getStorage''
               [field v ''address'', field v ''position'',
                js_or (field v ''blockTag'') (JStr ''latest'')]],
            Inl e)"
  using assms
  by (auto simp: storage_configured getStorageAt_query_def Let_def selected_endpoint_def
      alchemy_endpoint_def)

lemma storage_zero_rejected:
  assumes "configured w"
    and "callLLMWithTimeout w st ''getStorageAtAction'' = Inr v"
    and "\<not> truthy (field v ''error'')"
    and "field v ''position'' = JNum 0 \<or> \<not> truthy (field v ''address'')"
  shows "getStorageAt_handler w m st cb =
     (LLMCall ''getStorageAtAction''
      # notify cb (''[getStorageAtAction] Failed to extract storage parameters from input: ''
                   @ ''Invalid storage parameters received from LLM.'')
          (failure_content
             (''[getStorageAtAction] Failed to extract storage parameters from input: ''
              @ ''Invalid storage parameters received from LLM.'')),
      Inr (failure cross_mark ''POLYGON_ZKEVM_GET_STORAGE'' ''storageRetrieved''
             (''[getStorageAtAction] Failed to extract storage parameters from input: ''
              @ ''Invalid storage parameters received from LLM.'')
             [] (Err ''Invalid storage parameters received from LLM.'')))"
proof -
  from assms(2-4) have "getStorageAt_extract (callLLMWithTimeout w st ''getStorageAtAction'')
      = Inl (Err ''Invalid storage parameters received from LLM.'')"
    by (auto simp: getStorageAt_extract_def)
  with assms(1) show ?thesis by (simp add: storage_configured)
qed

subsection \<open>\<^verbatim>\<open>getGasPrice\<close>\<close>

lemma gas_unconfigured:
  "\<not> configured w \<Longrightarrow>
   getGasPrice_handler w m st cb =
     (notify cb config_message
        [(''error'', V (JStr config_message)), (''success'', V (JBool False))],
      Inr (failure cross_mark ''POLYGON_ZKEVM_GET_GAS_PRICE'' ''gasPriceRetrieved''
             config_message [] (Err config_message)))"
  by (simp add: getGasPrice_handler_def configured_def Let_def)

lemma gas_configured:
  "configured w \<Longrightarrow>
   getGasPrice_handler w m st cb =
     (case getGasPrice_try w cb (selected_endpoint w) (selected_method w) of
        (tr, Inr r) \<Rightarrow> (LLMCall ''OBJECT_LARGE'' # tr, Inr r)
      | (tr, Inl e) \<Rightarrow>
          (LLMCall ''OBJECT_LARGE'' # tr
           @ notify cb (''Failed to retrieve gas price: '' @ exn_text e)
               [(''error'', V (JStr (''Failed to retrieve gas price: '' @ exn_text e))),
                (''success'', V (JBool False))],
           Inr (failure cross_mark ''POLYGON_ZKEVM_GET_GAS_PRICE'' ''gasPriceRetrieved''
                  (''Failed to retrieve gas price: '' @ exn_text e) [] (as_error e))))"
  by (auto simp: getGasPrice_handler_def configured_def Let_def selected_endpoint_def
      selected_method_def alchemy_endpoint_def split: prod.splits sum.splits)

lemma gas_try_shape:
  "result_ok (well_shaped cross_mark ''POLYGON_ZKEVM_GET_GAS_PRICE'')
     (getGasPrice_try w cb url k)"
  by (simp add: getGasPrice_try_def shape_simps split: sum.splits)

lemma gas_shape:
  "result_ok (well_shaped cross_mark ''POLYGON_ZKEVM_GET_GAS_PRICE'')
     (getGasPrice_handler w m st cb)"
proof (cases "configured w")
  case False
  then show ?thesis by (simp add: gas_unconfigured failure_well_shaped)
next
  case True
  obtain tr x where t: "getGasPrice_try w cb (selected_endpoint w) (selected_method w) = (tr, x)"
    by (cases "getGasPrice_try w cb (selected_endpoint w) (selected_method w)")
  show ?thesis
  proof (cases x)
    case (Inl e)
    with True t show ?thesis by (simp add: gas_configured failure_well_shaped)
  next
    case (Inr r)
    with gas_try_shape [of w cb "selected_endpoint w" "selected_method w"] t
    have "well_shaped cross_mark ''POLYGON_ZKEVM_GET_GAS_PRICE'' r" by simp
    with True t Inr show ?thesis by (simp add: gas_configured)
  qed
qed

lemma gas_returns: "\<not> escaped (getGasPrice_handler w m st cb)"
  by (cases "configured w")
    (simp_all add: gas_unconfigured gas_configured split: prod.splits sum.splits)








lemma gas_provider_failure:
  assumes "configured w" and "send w (selected_endpoint w) ''eth_gasPrice'' [] = Inl e"
  shows "getGasPrice_handler w m st cb =
     (LLMCall ''OBJECT_LARGE'' # RpcCall (selected_endpoint w) ''eth_gasPrice'' []
      # notify cb (''Failed to retrieve gas price: '' @ exn_text e)
          [(''error'', V (JStr (''Failed to retrieve gas price: '' @ exn_text e))),
           (''success'', V (JBool False))],
      Inr (failure cross_mark ''POLYGON_ZKEVM_GET_GAS_PRICE'' ''gasPriceRetrieved''
             (''Failed to retrieve gas price: '' @ exn_text e) [] (as_error e)))"
  using assms by (simp add: gas_configured getGasPrice_try_def)

subsection \<open>\<^verbatim>\<open>getTransactionReceipt\<close>, on every path\<close>

lemma receipt_try_shape:
  "result_ok (well_shaped cross_mark ''POLYGON_ZKEVM_GET_TRANSACTION_RECEIPT'')
     (getTransactionReceipt_try w m cb)"
  by (simp add: getTransactionReceipt_try_def shape_simps split: sum.splits option.splits)

lemma receipt_handler_cases:
  "getTransactionReceipt_handler w m st cb =
     (case getTransactionReceipt_try w m cb of
        (tr, Inr r) \<Rightarrow> (tr, Inr r)
      | (tr, Inl e) \<Rightarrow>
          if \<not> cb then (tr, Inl not_a_function)
          else (tr @ [Callback (''Error getting transaction receipt: '' @ message_or_unknown e)
                        (failure_content
                           (''Error getting transaction receipt: '' @ message_or_unknown e))],
                Inr (failure cross_mark ''POLYGON_ZKEVM_GET_TRANSACTION_RECEIPT''
                       ''receiptRetrieved''
                       (''Error getting transaction receipt: '' @ message_or_unknown e)
                       [] (as_error e))))"
  by (simp add: getTransactionReceipt_handler_def Let_def split: prod.splits sum.splits)

lemma receipt_shape:
  "result_ok (well_shaped cross_mark ''POLYGON_ZKEVM_GET_TRANSACTION_RECEIPT'')
     (getTransactionReceipt_handler w m st cb)"
proof -
  obtain tr x where t: "getTransactionReceipt_try w m cb = (tr, x)"
    by (cases "getTransactionReceipt_try w m cb")
  show ?thesis
  proof (cases x)
    case (Inl e)
    with t show ?thesis by (simp add: receipt_handler_cases failure_well_shaped)
  next
    case (Inr r)
    with receipt_try_shape [of w m cb] t show ?thesis by (simp add: receipt_handler_cases)
  qed
qed

lemma receipt_returns: "\<not> escaped (getTransactionReceipt_handler w m st True)"
  by (simp add: receipt_handler_cases split: prod.splits sum.splits)



lemma receipt_try_urls:
  "list_all (\<lambda>u. u = receipt_url w) (rpc_urls (fst (getTransactionReceipt_try w m cb)))"
  by (simp add: getTransactionReceipt_try_def Let_def split: sum.splits option.splits)

lemma receipt_urls:
  "list_all (\<lambda>u. u = receipt_url w)
     (rpc_urls (fst (getTransactionReceipt_handler w m st cb)))"
proof -
  obtain tr x where t: "getTransactionReceipt_try w m cb = (tr, x)"
    by (cases "getTransactionReceipt_try w m cb")
  with receipt_try_urls [of w m cb] have "list_all (\<lambda>u. u = receipt_url w) (rpc_urls tr)"
    by simp
  with t show ?thesis by (cases x) (simp_all add: receipt_handler_cases)
qed




lemma receipt_status_line: "sublist (status_line rc) (receipt_text w h rc)"
proof -
  have "\<exists>post. receipt_text w h rc =
      (''Transaction Receipt for '' @ h @ '':\<newline>''
       @ [CHR 0xF0, CHR 0x9F, CHR 0x93, CHR 0x8B] @ '' Hash: '' @ rc_hash rc @ ''\<newline>''
       @ [CHR 0xF0, CHR 0x9F, CHR 0x94, CHR 0x97] @ '' Block: ''
       @ show_int 10 (rc_blockNumber rc) @ ''\<newline>''
       @ [CHR 0xF0, CHR 0x9F, CHR 0x93, CHR 0x8D] @ '' From: '' @ rc_from rc @ ''\<newline>''
       @ [CHR 0xF0, CHR 0x9F, CHR 0x93, CHR 0x8D] @ '' To: ''
       @ or_default (rc_to rc) ''Contract Creation'' @ ''\<newline>'')
      @ status_line rc @ post"
    by (simp add: receipt_text_def status_line_def check_mark_def cross_mark_def Let_def)
  then show ?thesis
    by (metis sublist_appendI)
qed

subsection \<open>\<^verbatim>\<open>getBlockDetailsByNumber\<close>\<close>



lemma block_report_shape:
  "result_ok (well_shaped cross_mark ''POLYGON_ZKEVM_GET_BLOCK_DETAILS_BY_NUMBER'')
     (block_report w cb n asked found k errs)"
  by (simp add: block_report_def shape_simps split: option.splits)

lemma block_report_returns: "\<not> escaped (block_report w cb n asked found k errs)"
  by (simp add: block_report_def Let_def split: option.splits)




lemma block_report_failed:
  "failed (block_report w cb n asked found k errs) = (found = None)"
  by (simp add: block_report_def Let_def split: option.splits)


lemma block_search_cases:
  "block_search w n =
     (case (if present (getSetting w ''ALCHEMY_API_KEY'') then alchemy_attempt w n
            else ([], None, [])) of
        (asked1, found1, errors1) \<Rightarrow>
          (case (if found1 = None \<and> present (getSetting w ''ZKEVM_RPC_URL'')
                 then rpc_attempt w n else ([], None, [])) of
             (asked2, found2, errors2) \<Rightarrow>
               (asked1 @ asked2,
                (case found1 of Some b \<Rightarrow> Some b | None \<Rightarrow> found2),
                (case found1 of
                   Some b \<Rightarrow> Some ''alchemy''
                 | None \<Rightarrow> (case found2 of Some b \<Rightarrow> Some ''rpc'' | None \<Rightarrow> None)),
                errors1 @ errors2)))"
  by (simp add: block_search_def Let_def split: prod.splits)




lemma block_search_errors:
  "snd (snd (snd (block_search w n))) =
     (if present (getSetting w ''ALCHEMY_API_KEY'') then snd (snd (alchemy_attempt w n)) else [])
     @ (if (\<not> present (getSetting w ''ALCHEMY_API_KEY'')
            \<or> fst (snd (alchemy_attempt w n)) = None)
           \<and> present (getSetting w ''ZKEVM_RPC_URL'')
        then snd (snd (rpc_attempt w n)) else [])"
proof -
  obtain a1 f1 e1 where a: "alchemy_attempt w n = (a1, f1, e1)"
    by (cases "alchemy_attempt w n")
  obtain a2 f2 e2 where r: "rpc_attempt w n = (a2, f2, e2)"
    by (cases "rpc_attempt w n")
  show ?thesis by (simp add: block_search_cases a r)
qed

lemma block_query_cases:
  "getBlockDetailsByNumber_query w cb n =
     block_report w cb n
       (LLMCall ''getBlockDetailsByNumberAction'' # fst (block_search w n))
       (fst (snd (block_search w n)))
       (fst (snd (snd (block_search w n))))
       (snd (snd (snd (block_search w n))))"
  by (simp add: getBlockDetailsByNumber_query_def split: prod.splits)

lemma block_unconfigured:
  "\<not> configured w \<Longrightarrow>
   getBlockDetailsByNumber_handler w m st cb =
     (notify cb config_message (failure_content config_message),
      Inr (failure cross_mark ''POLYGON_ZKEVM_GET_BLOCK_DETAILS_BY_NUMBER'' ''blockRetrieved''
             config_message [] (Err config_message)))"
  by (simp add: getBlockDetailsByNumber_handler_def configured_def Let_def)

lemma block_configured:
  "configured w \<Longrightarrow>
   getBlockDetailsByNumber_handler w m st cb =
     (case getBlockDetailsByNumber_extract
             (callLLMWithTimeout w st ''getBlockDetailsByNumberAction'') of
        Inl e \<Rightarrow>
          (LLMCall ''getBlockDetailsByNumberAction''
           # notify cb ''[getBlockDetailsByNumberAction] OBJECT_LARGE model failed''
               (failure_content ''[getBlockDetailsByNumberAction] OBJECT_LARGE model failed''),
           Inr (failure cross_mark ''POLYGON_ZKEVM_GET_BLOCK_DETAILS_BY_NUMBER''
                  ''blockRetrieved''
                  ''[getBlockDetailsByNumberAction] OBJECT_LARGE model failed'' []
                  (Err ''[getBlockDetailsByNumberAction] OBJECT_LARGE model failed'')))
      | Inr v \<Rightarrow>
          if \<not> truthy (field v ''blockNumber'') \<or> \<not> is_number (field v ''blockNumber'') then
            (LLMCall ''getBlockDetailsByNumberAction''
             # notify cb ''Invalid block number extracted from input''
                 (failure_content ''Invalid block number extracted from input''),
             Inr (failure cross_mark ''POLYGON_ZKEVM_GET_BLOCK_DETAILS_BY_NUMBER''
                    ''blockRetrieved'' ''Invalid block number extracted from input'' []
                    (Err ''Invalid block number extracted from input'')))
          else getBlockDetailsByNumber_query w cb (the_number (field v ''blockNumber'')))"
  by (auto simp: getBlockDetailsByNumber_handler_def configured_def Let_def split: sum.splits)

lemma block_shape:
  "result_ok (well_shaped cross_mark ''POLYGON_ZKEVM_GET_BLOCK_DETAILS_BY_NUMBER'')
     (getBlockDetailsByNumber_handler w m st cb)"
  by (cases "configured w")
    (simp_all add: block_unconfigured block_configured block_query_cases block_report_shape
      failure_well_shaped split: sum.splits)

lemma block_returns: "\<not> escaped (getBlockDetailsByNumber_handler w m st cb)"
  by (cases "configured w")
    (simp_all add: block_unconfigured block_configured block_query_cases block_report_returns
      split: sum.splits)




lemma block_zero_rejected:
  assumes "configured w"
    and "callLLMWithTimeout w st ''getBlockDetailsByNumberAction'' = Inr v"
    and "\<not> truthy (field v ''error'')"
    and "field v ''blockNumber'' = JNum 0"
  shows "getBlockDetailsByNumber_handler w m st cb =
     (LLMCall ''getBlockDetailsByNumberAction''
      # notify cb ''Invalid block number extracted from input''
          (failure_content ''Invalid block number extracted from input''),
      Inr (failure cross_mark ''POLYGON_ZKEVM_GET_BLOCK_DETAILS_BY_NUMBER''
             ''blockRetrieved'' ''Invalid block number extracted from input'' []
             (Err ''Invalid block number extracted from input'')))"
proof -
  from assms(2,3) have "getBlockDetailsByNumber_extract
      (callLLMWithTimeout w st ''getBlockDetailsByNumberAction'') = Inr v"
    by (simp add: getBlockDetailsByNumber_extract_def)
  with assms(1,4) show ?thesis by (simp add: block_configured)
qed





lemma block_not_found:
  assumes "fst (snd (block_search w n)) = None"
  shows "getBlockDetailsByNumber_query w cb n =
     (LLMCall ''getBlockDetailsByNumberAction'' # fst (block_search w n)
      @ notify cb
          (cross_mark @ '' '' @ ''Failed to retrieve details for Polygon zkEVM block ''
           @ show_int 10 n @ '' using both Alchemy and RPC. Errors: ''
           @ join ''; '' (snd (snd (snd (block_search w n)))) @ ''. It'' @ [CHR 0x27]
           @ ''s possible the block number is invalid or the block does not exist yet.'')
          (failure_content
             (''Failed to retrieve details for Polygon zkEVM block ''
              @ show_int 10 n @ '' using both Alchemy and RPC. Errors: ''
              @ join ''; '' (snd (snd (snd (block_search w n)))) @ ''. It'' @ [CHR 0x27]
              @ ''s possible the block number is invalid or the block does not exist yet.'')),
      Inr (failure cross_mark ''POLYGON_ZKEVM_GET_BLOCK_DETAILS_BY_NUMBER'' ''blockRetrieved''
             (''Failed to retrieve details for Polygon zkEVM block ''
              @ show_int 10 n @ '' using both Alchemy and RPC. Errors: ''
              @ join ''; '' (snd (snd (snd (block_search w n)))) @ ''. It'' @ [CHR 0x27]
              @ ''s possible the block number is invalid or the block does not exist yet.'')
             [(''errors'', V (JArr (map JStr (snd (snd (snd (block_search w n))))))),
              (''blockNumber'', V (JNum n))]
             (Err (''Failed to retrieve details for Polygon zkEVM block ''
              @ show_int 10 n @ '' using both Alchemy and RPC. Errors: ''
              @ join ''; '' (snd (snd (snd (block_search w n)))) @ ''. It'' @ [CHR 0x27]
              @ ''s possible the block number is invalid or the block does not exist yet.''))))"
  using assms by (simp add: block_query_cases block_report_def Let_def)

subsection \<open>\<^verbatim>\<open>getBatchInfo\<close>\<close>

lemma batch_report_shape:
  "result_ok (well_shaped batch_mark ''POLYGON_ZKEVM_GET_BATCH_INFO'')
     (batch_report w cb n k asked found errs)"
  by (simp add: batch_report_def shape_simps split: option.splits)

lemma batch_report_returns: "\<not> escaped (batch_report w cb n k asked found errs)"
  by (simp add: batch_report_def Let_def split: option.splits)





lemma batch_query_cases:
  "getBatchInfo_query w cb n =
     batch_report w cb n (selected_method w)
       (LLMCall ''getBatchInfoAction'' # fst (batch_attempt w (selected_endpoint w) n))
       (fst (snd (batch_attempt w (selected_endpoint w) n)))
       (snd (snd (batch_attempt w (selected_endpoint w) n)))"
  by (simp add: getBatchInfo_query_def selected_method_def selected_endpoint_def
      alchemy_endpoint_def Let_def split: prod.splits)

lemma batch_unconfigured:
  "\<not> configured w \<Longrightarrow>
   getBatchInfo_handler w m st cb =
     (notify cb config_message (failure_content config_message),
      Inr (failure batch_mark ''POLYGON_ZKEVM_GET_BATCH_INFO'' ''batchRetrieved''
             config_message [] (Err config_message)))"
  by (simp add: getBatchInfo_handler_def configured_def Let_def)

lemma batch_configured:
  "configured w \<Longrightarrow>
   getBatchInfo_handler w m st cb =
     (case getBatchInfo_extract (callLLMWithTimeout w st ''getBatchInfoAction'') of
        Inl e \<Rightarrow>
          (LLMCall ''getBatchInfoAction''
           # notify cb (''[getBatchInfoAction] Failed to extract batch number from input: ''
                        @ exn_text e)
               (failure_content
                  (''[getBatchInfoAction] Failed to extract batch number from input: ''
                   @ exn_text e)),
           Inr (failure batch_mark ''POLYGON_ZKEVM_GET_BATCH_INFO'' ''batchRetrieved''
                  (''[getBatchInfoAction] Failed to extract batch number from input: ''
                   @ exn_text e) [] (as_error e)))
      | Inr v \<Rightarrow> getBatchInfo_query w cb (field v ''batchNumber''))"
  by (auto simp: getBatchInfo_handler_def configured_def Let_def split: sum.splits)

lemma batch_shape:
  "result_ok (well_shaped batch_mark ''POLYGON_ZKEVM_GET_BATCH_INFO'')
     (getBatchInfo_handler w m st cb)"
  by (cases "configured w")
    (simp_all add: batch_unconfigured batch_configured batch_query_cases batch_report_shape
      failure_well_shaped split: sum.splits)

lemma batch_returns: "\<not> escaped (getBatchInfo_handler w m st cb)"
  by (cases "configured w")
    (simp_all add: batch_unconfigured batch_configured batch_query_cases batch_report_returns
      split: sum.splits)






lemma batch_zero_rejected:
  assumes "configured w"
    and "callLLMWithTimeout w st ''getBatchInfoAction'' = Inr v"
    and "\<not> truthy (field v ''error'')"
    and "field v ''batchNumber'' = JNum 0"
  shows "failed (getBatchInfo_handler w m st cb)
         \<and> no_rpc (fst (getBatchInfo_handler w m st cb))"
proof -
  from assms(2-4) have "getBatchInfo_extract (callLLMWithTimeout w st ''getBatchInfoAction'')
      = Inl (Err ''Invalid batch number received from LLM.'')"
    by (simp add: getBatchInfo_extract_def)
  with assms(1) show ?thesis by (simp add: batch_configured)
qed

lemma marks_differ: "\<not> prefix cross_mark (batch_mark @ t)"
  by (simp add: cross_mark_def batch_mark_def)

subsection \<open>The concrete inputs\<close>

lemma match_sample: "match_hash sample_hash = Some sample_hash"
  by code_simp

lemma configured_simps:
  "\<not> configured silent"
  "configured storage_down"
  "configured zero_extracted"
  "\<not> configured receipt_known"
  "configured receipt_known_key"
  "configured receipt_unknown"
  "configured gas_known"
  "configured block_by_rpc"
  by (simp_all add: configured_def silent_def storage_down_def zero_extracted_def
      receipt_known_def receipt_known_key_def receipt_unknown_def gas_known_def
      block_by_rpc_def with_key_def with_url_def with_both_def)

lemma unconfigured_reported:
  "reports_missing_configuration cb
     (notify cb config_message c,
      Inr (failure mark name flag config_message [] (Err config_message)))
   = (cb \<longrightarrow> failure_callback config_message (Callback config_message c))"
  by (simp add: reports_missing_configuration_def notify_def suffix_config)

lemma receipt_url_default: "\<not> configured w \<Longrightarrow> receipt_url w = default_rpc_url"
  by (cases "getSetting w ''ZKEVM_RPC_URL''") (auto simp: configured_def receipt_url_def)


lemma zero_extracted_facts:
  "callLLMWithTimeout zero_extracted JUndefined n
     = Inr (JObj [(''address'', JStr ''0xabc''), (''position'', JNum 0),
                  (''blockNumber'', JNum 0)])"
  "\<not> truthy (field (JObj [(''address'', JStr ''0xabc''), (''position'', JNum 0),
                           (''blockNumber'', JNum 0)]) ''error'')"
  "field (JObj [(''address'', JStr ''0xabc''), (''position'', JNum 0),
                (''blockNumber'', JNum 0)]) ''position'' = JNum 0"
  "field (JObj [(''address'', JStr ''0xabc''), (''position'', JNum 0),
                (''blockNumber'', JNum 0)]) ''blockNumber'' = JNum 0"
  by (simp_all add: zero_extracted_def silent_def)

subsection \<open>The receipt handler with a callback\<close>

lemma receipt_with_callback:
  "(contains_hash t \<longrightarrow>
      (\<exists>h. match_hash t = Some h \<and> length h = 66 \<and> sublist h t
           \<and> (\<forall>rc. getTransactionReceipt w (receipt_url w) h = Inr (Some rc) \<longrightarrow>
                  succeeded (getTransactionReceipt_handler w (Some t) st True)
                  \<and> sublist (status_line rc)
                      (text_of (getTransactionReceipt_handler w (Some t) st True)))
           \<and> (getTransactionReceipt w (receipt_url w) h = Inr None \<longrightarrow>
                  failed (getTransactionReceipt_handler w (Some t) st True)
                  \<and> text_of (getTransactionReceipt_handler w (Some t) st True) =
                      cross_mark @ '' Transaction receipt not found: '' @ h
                      @ ''. The transaction may be pending or does not exist.'')))
   \<and> (\<not> contains_hash t \<longrightarrow>
        failed (getTransactionReceipt_handler w (Some t) st True)
        \<and> no_rpc (fst (getTransactionReceipt_handler w (Some t) st True))
        \<and> text_of (getTransactionReceipt_handler w (Some t) st True) =
            cross_mark @ '' Please provide a valid transaction hash (0x... 64 characters) to get the transaction receipt.'')"
proof (intro conjI impI)
  assume "contains_hash t"
  then obtain h where h: "match_hash t = Some h"
    using match_hash_None_iff [of t] by (cases "match_hash t") simp_all
  from match_hash_Some [OF h] have l: "length h = 66" "sublist h t" by simp_all
  have "succeeded (getTransactionReceipt_handler w (Some t) st True)
        \<and> sublist (status_line rc) (text_of (getTransactionReceipt_handler w (Some t) st True))"
    if "getTransactionReceipt w (receipt_url w) h = Inr (Some rc)" for rc
    using receipt_found [OF h that, of st] receipt_status_line [of rc w h]
    by (simp add: text_of_def)
  moreover have "failed (getTransactionReceipt_handler w (Some t) st True)
        \<and> text_of (getTransactionReceipt_handler w (Some t) st True) =
            cross_mark @ '' Transaction receipt not found: '' @ h
            @ ''. The transaction may be pending or does not exist.''"
    if "getTransactionReceipt w (receipt_url w) h = Inr None"
    using receipt_not_found [OF h that, of st] by (simp add: text_of_def Let_def)
  ultimately show "\<exists>h. match_hash t = Some h \<and> length h = 66 \<and> sublist h t
           \<and> (\<forall>rc. getTransactionReceipt w (receipt_url w) h = Inr (Some rc) \<longrightarrow>
                  succeeded (getTransactionReceipt_handler w (Some t) st True)
                  \<and> sublist (status_line rc)
                      (text_of (getTransactionReceipt_handler w (Some t) st True)))
           \<and> (getTransactionReceipt w (receipt_url w) h = Inr None \<longrightarrow>
                  failed (getTransactionReceipt_handler w (Some t) st True)
                  \<and> text_of (getTransactionReceipt_handler w (Some t) st True) =
                      cross_mark @ '' Transaction receipt not found: '' @ h
                      @ ''. The transaction may be pending or does not exist.'')"
    using h l by blast
next
  assume "\<not> contains_hash t"
  then have n: "match_hash t = None" by (simp add: match_hash_None_iff)
  note eq = receipt_no_hash [OF n, of w st]
  show "failed (getTransactionReceipt_handler w (Some t) st True)" by (simp add: eq Let_def)
  show "no_rpc (fst (getTransactionReceipt_handler w (Some t) st True))"
    by (simp add: eq Let_def)
  show "text_of (getTransactionReceipt_handler w (Some t) st True) =
            cross_mark @ '' Please provide a valid transaction hash (0x... 64 characters) to get the transaction receipt.''"
    by (simp add: eq Let_def text_of_def)
qed

section \<open>Claims\<close>

text \<open>
  C1. A failure of the node is to become a failure result in every handler. In
  \<^verbatim>\<open>getStorageAt\<close> the call \<^verbatim>\<open>provider.getStorage\<close> stands outside every \<^verbatim>\<open>try\<close>: with the
  key set, an address and a slot extracted and the node down, the handler rejects with the
  error of the node and returns no result. (The handlers of the gas price, the block and the
  batch always return, by \<open>gas_returns\<close>, \<open>block_returns\<close> and \<open>batch_returns\<close>; the
  receipt handler does with a callback, by \<open>receipt_returns\<close>.)
\<close>

theorem getStorageAt_provider_failure_escapes:
  "getStorageAt_handler storage_down None JUndefined True =
     ([LLMCall ''getStorageAtAction'',
       RpcCall ''https://polygonzkevm-mainnet.g.alchemy.com/v2/key'' ''getStorage''
         [JStr ''0xabc'', JNum 1, JStr ''latest'']],
      Inl (Err ''network down''))"
  by (simp add: getStorageAt_handler_def getStorageAt_extract_def
      getStorageAt_query_def storage_down_def silent_def with_key_def js_or_def
      default_alchemy_url_def Let_def)

text \<open>
  C2, as amended. With neither ALCHEMY_API_KEY nor ZKEVM_RPC_URL present, the handlers of
  the gas price, the storage, the block and the batch return a failure whose text ends with
  the configuration message and whose error carries it, call the callback (when there is
  one) once with that message and a content of \<^verbatim>\<open>success: false\<close>, and make no request to a
  node. The receipt handler has no such check: whatever it asks, it asks the default node
  \<^verbatim>\<open>https://zkevm-rpc.com\<close>.
\<close>

theorem missing_configuration_reported:
  assumes "\<not> configured w"
  shows "reports_missing_configuration cb (getGasPrice_handler w m st cb)
       \<and> reports_missing_configuration cb (getStorageAt_handler w m st cb)
       \<and> reports_missing_configuration cb (getBlockDetailsByNumber_handler w m st cb)
       \<and> reports_missing_configuration cb (getBatchInfo_handler w m st cb)
       \<and> list_all (\<lambda>u. u = default_rpc_url)
            (rpc_urls (fst (getTransactionReceipt_handler w m st cb)))"
proof -
  from assms have "receipt_url w = default_rpc_url" by (rule receipt_url_default)
  with receipt_urls [of w m st cb]
  have "list_all (\<lambda>u. u = default_rpc_url)
          (rpc_urls (fst (getTransactionReceipt_handler w m st cb)))" by simp
  with assms show ?thesis
    by (simp add: gas_unconfigured storage_unconfigured block_unconfigured batch_unconfigured
        unconfigured_reported failure_content_def)
qed

text \<open>The theorem at the silent world, where nothing is set.\<close>

theorem missing_configuration_reported_witness:
  "\<not> configured silent
   \<and> reports_missing_configuration True (getGasPrice_handler silent None JUndefined True)
   \<and> reports_missing_configuration True (getStorageAt_handler silent None JUndefined True)
   \<and> reports_missing_configuration True
       (getBlockDetailsByNumber_handler silent None JUndefined True)
   \<and> reports_missing_configuration True (getBatchInfo_handler silent None JUndefined True)"
  using missing_configuration_reported [of silent True None JUndefined]
  by (simp add: configured_simps)

text \<open>
  C2 as it was stated fails on the receipt handler: with nothing set, a hash in the text and
  the receipt known, it asks the default node and returns a success.
\<close>

theorem receipt_handler_has_no_configuration_check:
  "\<not> configured receipt_known
   \<and> \<not> reports_missing_configuration True
         (getTransactionReceipt_handler receipt_known (Some sample_hash) JUndefined True)
   \<and> succeeded (getTransactionReceipt_handler receipt_known (Some sample_hash) JUndefined True)
   \<and> rpc_urls (fst (getTransactionReceipt_handler receipt_known (Some sample_hash)
                        JUndefined True)) = [''https://zkevm-rpc.com'']"
proof -
  have u: "receipt_url receipt_known = ''https://zkevm-rpc.com''"
    by (simp add: receipt_url_default configured_simps default_rpc_url_def)
  have "getTransactionReceipt receipt_known (receipt_url receipt_known) sample_hash
          = Inr (Some sample_receipt)"
    by (simp add: receipt_known_def)
  from receipt_found [OF match_sample this, of JUndefined] u show ?thesis
    by (simp add: configured_simps reports_missing_configuration_def)
qed

text \<open>
  C3. With a hash in the text and a receipt from the node the receipt handler is to return
  a success with the status line. It calls the callback without testing it: with no
  callback, the hash in the text and the receipt known, the \<^verbatim>\<open>try\<close> throws a
  \<^verbatim>\<open>TypeError\<close>, the \<^verbatim>\<open>catch\<close> throws it again, and the handler rejects. (With a callback
  the claim holds, by \<open>receipt_with_callback\<close>; with none the handler rejects on every
  input, by \<open>receipt_without_callback\<close>.)
\<close>

theorem receipt_handler_needs_callback:
  "getTransactionReceipt_handler receipt_known_key (Some sample_hash) JUndefined False =
     ([RpcCall ''https://polygonzkevm-mainnet.g.alchemy.com/v2/key'' ''getTransactionReceipt''
         [JStr sample_hash]],
      Inl not_a_function)"
  by (simp add: receipt_handler_cases getTransactionReceipt_try_def match_sample
      receipt_url_def receipt_known_key_def receipt_known_def silent_def with_key_def
      default_alchemy_url_def Let_def)










text \<open>
  C7. Each \<^verbatim>\<open>validate\<close> function returns true if and only if at least one of the settings
  ALCHEMY_API_KEY and ZKEVM_RPC_URL is present and non-empty; its result depends neither on
  the message (or the state) nor on the PRIVATE_KEY setting.
\<close>

theorem validate_iff_credential_present:
  "credential_gate getStorageAt_validate
   \<and> credential_gate getTransactionReceipt_validate
   \<and> credential_gate getGasPrice_validate
   \<and> credential_gate getBlockDetailsByNumber_validate
   \<and> credential_gate getBatchInfo_validate"
  by (simp add: credential_gate_def getStorageAt_validate_def
      getTransactionReceipt_validate_def getGasPrice_validate_def
      getBlockDetailsByNumber_validate_def getBatchInfo_validate_def)

text \<open>
  C8. A receipt the node does not have is to become a failure result. With no callback the
  receipt handler rejects there too, for the same reason as in C3. (With a callback it
  returns the failure, by \<open>receipt_with_callback\<close>; the block handler returns the failure
  that names the block and the error messages, by \<open>block_not_found\<close>.)
\<close>

theorem receipt_not_found_needs_callback:
  "getTransactionReceipt_handler receipt_unknown (Some sample_hash) JUndefined False =
     ([RpcCall ''https://polygonzkevm-mainnet.g.alchemy.com/v2/key'' ''getTransactionReceipt''
         [JStr sample_hash]],
      Inl not_a_function)"
  by (simp add: receipt_handler_cases getTransactionReceipt_try_def match_sample
      receipt_url_def receipt_unknown_def silent_def with_key_def
      default_alchemy_url_def Let_def)

text \<open>
  C9. With a credential present and an answer of the language model without \<^verbatim>\<open>error\<close>
  field: when the extracted storage position is the number 0, or the address is empty or
  missing, the storage handler returns the extraction failure; when the extracted block
  number is 0, the block handler returns the failure "Invalid block number extracted from
  input"; when the extracted batch number is 0, the batch handler returns a failure. In each
  case no request to a node is made.
\<close>

theorem zero_values_rejected:
  assumes "configured w"
  shows "(callLLMWithTimeout w st ''getStorageAtAction'' = Inr v
          \<and> \<not> truthy (field v ''error'')
          \<and> (field v ''position'' = JNum 0 \<or> \<not> truthy (field v ''address'')) \<longrightarrow>
          failed (getStorageAt_handler w m st cb)
          \<and> text_of (getStorageAt_handler w m st cb) =
              cross_mark
              @ '' [getStorageAtAction] Failed to extract storage parameters from input: ''
              @ ''Invalid storage parameters received from LLM.''
          \<and> no_rpc (fst (getStorageAt_handler w m st cb)))
       \<and> (callLLMWithTimeout w st ''getBlockDetailsByNumberAction'' = Inr v'
          \<and> \<not> truthy (field v' ''error'') \<and> field v' ''blockNumber'' = JNum 0 \<longrightarrow>
          failed (getBlockDetailsByNumber_handler w m st cb)
          \<and> text_of (getBlockDetailsByNumber_handler w m st cb) =
              cross_mark @ '' Invalid block number extracted from input''
          \<and> no_rpc (fst (getBlockDetailsByNumber_handler w m st cb)))
       \<and> (callLLMWithTimeout w st ''getBatchInfoAction'' = Inr v''
          \<and> \<not> truthy (field v'' ''error'') \<and> field v'' ''batchNumber'' = JNum 0 \<longrightarrow>
          failed (getBatchInfo_handler w m st cb)
          \<and> no_rpc (fst (getBatchInfo_handler w m st cb)))"
proof (intro conjI impI)
  assume a: "callLLMWithTimeout w st ''getStorageAtAction'' = Inr v
          \<and> \<not> truthy (field v ''error'')
          \<and> (field v ''position'' = JNum 0 \<or> \<not> truthy (field v ''address''))"
  then have p: "callLLMWithTimeout w st ''getStorageAtAction'' = Inr v"
    "\<not> truthy (field v ''error'')"
    "field v ''position'' = JNum 0 \<or> \<not> truthy (field v ''address'')" by simp_all
  note eq = storage_zero_rejected [OF assms p, of m cb]
  show "failed (getStorageAt_handler w m st cb)" by (simp add: eq)
  show "text_of (getStorageAt_handler w m st cb) =
              cross_mark
              @ '' [getStorageAtAction] Failed to extract storage parameters from input: ''
              @ ''Invalid storage parameters received from LLM.''"
    by (simp add: eq text_of_def)
  show "no_rpc (fst (getStorageAt_handler w m st cb))" by (simp add: eq)
next
  assume a: "callLLMWithTimeout w st ''getBlockDetailsByNumberAction'' = Inr v'
          \<and> \<not> truthy (field v' ''error'') \<and> field v' ''blockNumber'' = JNum 0"
  then have p: "callLLMWithTimeout w st ''getBlockDetailsByNumberAction'' = Inr v'"
    "\<not> truthy (field v' ''error'')" "field v' ''blockNumber'' = JNum 0" by simp_all
  note eq = block_zero_rejected [OF assms p, of m cb]
  show "failed (getBlockDetailsByNumber_handler w m st cb)" by (simp add: eq)
  show "text_of (getBlockDetailsByNumber_handler w m st cb) =
              cross_mark @ '' Invalid block number extracted from input''"
    by (simp add: eq text_of_def)
  show "no_rpc (fst (getBlockDetailsByNumber_handler w m st cb))" by (simp add: eq)
next
  assume a: "callLLMWithTimeout w st ''getBatchInfoAction'' = Inr v''
          \<and> \<not> truthy (field v'' ''error'') \<and> field v'' ''batchNumber'' = JNum 0"
  then have b: "failed (getBatchInfo_handler w m st cb)
         \<and> no_rpc (fst (getBatchInfo_handler w m st cb))"
    using batch_zero_rejected [OF assms, of st v'' m cb] by blast
  from b show "failed (getBatchInfo_handler w m st cb)" by simp
  from b show "no_rpc (fst (getBatchInfo_handler w m st cb))" by simp
qed

text \<open>The theorem where the model extracts the slot 0 and the block number 0.\<close>

theorem zero_values_rejected_witness:
  "configured zero_extracted
   \<and> callLLMWithTimeout zero_extracted JUndefined ''getStorageAtAction''
       = Inr (JObj [(''address'', JStr ''0xabc''), (''position'', JNum 0),
                    (''blockNumber'', JNum 0)])
   \<and> field (JObj [(''address'', JStr ''0xabc''), (''position'', JNum 0),
                    (''blockNumber'', JNum 0)]) ''position'' = JNum 0
   \<and> failed (getStorageAt_handler zero_extracted None JUndefined True)
   \<and> no_rpc (fst (getStorageAt_handler zero_extracted None JUndefined True))
   \<and> callLLMWithTimeout zero_extracted JUndefined ''getBlockDetailsByNumberAction''
       = Inr (JObj [(''address'', JStr ''0xabc''), (''position'', JNum 0),
                    (''blockNumber'', JNum 0)])
   \<and> field (JObj [(''address'', JStr ''0xabc''), (''position'', JNum 0),
                    (''blockNumber'', JNum 0)]) ''blockNumber'' = JNum 0
   \<and> failed (getBlockDetailsByNumber_handler zero_extracted None JUndefined True)
   \<and> text_of (getBlockDetailsByNumber_handler zero_extracted None JUndefined True)
       = cross_mark @ '' Invalid block number extracted from input''
   \<and> no_rpc (fst (getBlockDetailsByNumber_handler zero_extracted None JUndefined True))"
  using zero_values_rejected [of zero_extracted JUndefined
      "JObj [(''address'', JStr ''0xabc''), (''position'', JNum 0), (''blockNumber'', JNum 0)]"
      None True
      "JObj [(''address'', JStr ''0xabc''), (''position'', JNum 0), (''blockNumber'', JNum 0)]"
      "JObj [(''address'', JStr ''0xabc''), (''position'', JNum 0), (''blockNumber'', JNum 0)]"]
    configured_simps(3) zero_extracted_facts
  by simp

text \<open>
  C10. Every failure text is to start with the cross mark U+274C. The source file of
  \<^verbatim>\<open>getBatchInfo\<close> holds the characters U+201A, U+00F9, U+00E5 in its place: its failure
  for a missing configuration has every part of the failure shape but the mark. (The
  results of the other four handlers have the shape, by \<open>storage_shape\<close>, \<open>gas_shape\<close>,
  \<open>receipt_shape\<close> and \<open>block_shape\<close>; those of the batch handler have it with the
  other mark, by \<open>batch_shape\<close>.)
\<close>

theorem batch_failure_mark:
  "getBatchInfo_handler silent None JUndefined False =
     ([], Inr (failure batch_mark ''POLYGON_ZKEVM_GET_BATCH_INFO'' ''batchRetrieved''
                 config_message [] (Err config_message)))
   \<and> \<not> failure_shape ''POLYGON_ZKEVM_GET_BATCH_INFO''
         (failure batch_mark ''POLYGON_ZKEVM_GET_BATCH_INFO'' ''batchRetrieved''
            config_message [] (Err config_message))
   \<and> failure_shape_with batch_mark ''POLYGON_ZKEVM_GET_BATCH_INFO''
         (failure batch_mark ''POLYGON_ZKEVM_GET_BATCH_INFO'' ''batchRetrieved''
            config_message [] (Err config_message))"
  by (simp add: batch_unconfigured configured_simps notify_def failure_shape_def
      failure_shape_with_def marks_differ failure_def)

end
